theory Spec2Isabelle
  imports Complex_Main "HOL-Library.Char_ord" "HOL-Library.List_Lexorder"
begin

section \<open>Values and the Message entity\<close>

text \<open>
  Metadata values are arbitrary JSON values (\<^verbatim>\<open>Record<string, any>\<close>). Numbers that the
  service computes with (page, limit, totals, timestamps in milliseconds) are integers.
  Strings are lists of 8-bit characters, read as the code units U+0000 to U+00FF of a
  JavaScript string (ASCII and Latin-1); code units above U+00FF are not modelled.
\<close>

datatype json =
    JNull
  | JBool bool
  | JNum int
  | JStr string
  | JArr "json list"
  | JObj "(string \<times> json) list"

type_synonym metadata_map = "string \<rightharpoonup> json"

text \<open>The class \<^verbatim>\<open>Message\<close> (message.entity.ts). The field \<^verbatim>\<open>id\<close> is called
  \<open>msgId\<close> here; an absent \<^verbatim>\<open>metadata\<close> is \<open>None\<close>.\<close>

record message =
  msgId :: string
  conversationId :: string
  senderId :: string
  content :: string
  tenantId :: string
  timestamp :: int
  metadata :: "metadata_map option"

text \<open>\<^verbatim>\<open>{...x}\<close> of an object that may be undefined: spreading undefined adds no key.\<close>

definition spread :: "metadata_map option \<Rightarrow> metadata_map" where
  "spread mo = (case mo of None \<Rightarrow> Map.empty | Some M \<Rightarrow> M)"

text \<open>\<^verbatim>\<open>Message.create(props)\<close>: the properties given plus \<^verbatim>\<open>timestamp: new Date()\<close>.\<close>

definition create :: "string \<Rightarrow> string \<Rightarrow> string \<Rightarrow> string \<Rightarrow> string \<Rightarrow>
    metadata_map option \<Rightarrow> int \<Rightarrow> message" where
  "create i conv sender txt tenant meta newDate =
     \<lparr>msgId = i, conversationId = conv, senderId = sender, content = txt,
      tenantId = tenant, timestamp = newDate, metadata = meta\<rparr>"

definition updateContent :: "string \<Rightarrow> message \<Rightarrow> message" where
  "updateContent txt m = m\<lparr>content := txt\<rparr>"

text \<open>\<^verbatim>\<open>this.metadata = { ...this.metadata, ...metadata }\<close>: later keys win.\<close>

definition updateMetadata :: "metadata_map \<Rightarrow> message \<Rightarrow> message" where
  "updateMetadata N m = m\<lparr>metadata := Some (spread (metadata m) ++ N)\<rparr>"

section \<open>Strings: numbers in templates and search-term normalisation\<close>

text \<open>A template literal renders an integer in decimal, with a leading minus sign when
  negative.\<close>

definition digit_char :: "nat \<Rightarrow> char" where
  "digit_char d = ''0123456789'' ! d"

function string_of_nat :: "nat \<Rightarrow> string" where
  "string_of_nat n =
     (if n < 10 then [digit_char n] else string_of_nat (n div 10) @ [digit_char (n mod 10)])"
  by pat_completeness auto
termination
  by (relation "measure (\<lambda>n. n)") auto

definition string_of_int :: "int \<Rightarrow> string" where
  "string_of_int i =
     (if i < 0 then CHR ''-'' # string_of_nat (nat (- i)) else string_of_nat (nat i))"

text \<open>White space as \<^verbatim>\<open>trim()\<close> and the regular expression class \<^verbatim>\<open>\s\<close> see it,
  among the code units up to U+00FF: tab, line feed, vertical tab, form feed, carriage
  return, space and the no-break space U+00A0.\<close>

definition isSpace :: "char \<Rightarrow> bool" where
  "isSpace c = (c = CHR 0x09 \<or> c = CHR 0x0A \<or> c = CHR 0x0B \<or> c = CHR 0x0C
                \<or> c = CHR 0x0D \<or> c = CHR 0x20 \<or> c = CHR 0xA0)"

definition trim :: "string \<Rightarrow> string" where
  "trim s = rev (dropWhile isSpace (rev (dropWhile isSpace s)))"

text \<open>\<^verbatim>\<open>toLowerCase()\<close> on one code unit up to U+00FF: the letters A to Z and the
  capital letters U+00C0 to U+00DE move up by 32; the multiplication sign U+00D7, which
  lies among them, and every other code unit stay.\<close>

definition lowerChar :: "char \<Rightarrow> char" where
  "lowerChar c =
     (if (CHR ''A'' \<le> c \<and> c \<le> CHR ''Z'')
         \<or> (CHR 0xC0 \<le> c \<and> c \<le> CHR 0xDE \<and> c \<noteq> CHR 0xD7)
      then char_of (of_char c + (32::nat)) else c)"

definition toLowerCase :: "string \<Rightarrow> string" where
  "toLowerCase s = map lowerChar s"

text \<open>\<^verbatim>\<open>replace(/\s+/g, ' ')\<close>: every maximal run of white space becomes one space.\<close>

function replaceSpaceRuns :: "string \<Rightarrow> string" where
  "replaceSpaceRuns [] = []"
| "replaceSpaceRuns (c # cs) =
     (if isSpace c then CHR '' '' # replaceSpaceRuns (dropWhile isSpace cs)
      else c # replaceSpaceRuns cs)"
  by pat_completeness auto
termination
  by (relation "measure length") (auto simp: le_imp_less_Suc length_dropWhile_le)

definition normalizeSearchTerm :: "string \<Rightarrow> string" where
  "normalizeSearchTerm searchTerm = replaceSpaceRuns (toLowerCase (trim searchTerm))"

section \<open>Cache keys\<close>

datatype direction = Asc | Desc

fun direction_string :: "direction \<Rightarrow> string" where
  "direction_string Asc = ''asc''"
| "direction_string Desc = ''desc''"

text \<open>\<^verbatim>\<open>sortField || 'timestamp'\<close>: undefined and the empty string both give the default.\<close>

definition sortFieldOrDefault :: "string option \<Rightarrow> string" where
  "sortFieldOrDefault sf = (case sf of None \<Rightarrow> ''timestamp'' | Some f \<Rightarrow> if f = [] then ''timestamp'' else f)"

definition sortDirectionOrDefault :: "direction option \<Rightarrow> string" where
  "sortDirectionOrDefault sd = (case sd of None \<Rightarrow> ''desc'' | Some d \<Rightarrow> direction_string d)"

definition getMessageCacheKey :: "string \<Rightarrow> string \<Rightarrow> string" where
  "getMessageCacheKey i tenant = ''message:'' @ tenant @ '':'' @ i"

definition getConversationMessagesCacheKey ::
    "string \<Rightarrow> string \<Rightarrow> int \<Rightarrow> int \<Rightarrow> string option \<Rightarrow> direction option \<Rightarrow> string" where
  "getConversationMessagesCacheKey conv tenant pg lm sortField sortDirection =
     ''conversation-messages:'' @ tenant @ '':'' @ conv @ '':'' @ string_of_int pg @ '':''
       @ string_of_int lm @ '':'' @ sortFieldOrDefault sortField @ '':''
       @ sortDirectionOrDefault sortDirection"

definition getSearchCacheKey :: "string \<Rightarrow> string \<Rightarrow> string \<Rightarrow> int \<Rightarrow> int \<Rightarrow> string" where
  "getSearchCacheKey conv tenant searchTerm pg lm =
     ''search:messages:'' @ tenant @ '':'' @ conv @ '':'' @ normalizeSearchTerm searchTerm
       @ '':'' @ string_of_int pg @ '':'' @ string_of_int lm"

section \<open>Collaborators: store, cache, broker, search engine\<close>

record options =
  page :: int
  limit :: int
  sort_opt :: "(string \<times> direction) option"

record conversationPage =
  messages :: "message list"
  total :: int

text \<open>A number as \<^verbatim>\<open>Math.ceil(totalItems / limit)\<close> may give it: a division by zero gives
  an infinity or not-a-number.\<close>

datatype number = Num int | PosInfinity | NegInfinity | NaN

record paginationMeta =
  meta_page :: int
  meta_limit :: int
  totalItems :: int
  totalPages :: number

record paginatedResponse =
  data :: "message list"
  pagination :: paginationMeta

datatype cached =
    CachedMessage message
  | CachedPage conversationPage
  | CachedSearch paginatedResponse

datatype eventType = CREATED | UPDATED | DELETED

datatype payload =
    MessagePayload message
  | DeletedPayload string string string

record messageEvent =
  ev_type :: eventType
  ev_payload :: payload
  ev_timestamp :: int
  ev_version :: string

text \<open>The body of the search request: the two \<^verbatim>\<open>term\<close> filters, the \<^verbatim>\<open>multi_match\<close>
  query string, \<^verbatim>\<open>from\<close> and \<^verbatim>\<open>size\<close>. The fields searched, the fuzziness and the sort
  (timestamp, descending) are constants of the source.\<close>

record searchRequest =
  req_index :: string
  term_conversationId :: string
  term_tenantId :: string
  multi_match_query :: string
  req_from :: int
  req_size :: int

text \<open>How the engine reports the number of hits: a number, an object with a
  \<^verbatim>\<open>value\<close>, or nothing.\<close>

datatype hitsTotal = TotalNumber int | TotalObject int | TotalMissing

record searchResponse =
  hits :: "message list"
  hits_total :: hitsTotal

text \<open>Every call that leaves the process. The trace of these calls is part of the state;
  a call may be rejected by its collaborator.\<close>

datatype call =
    DbInsert message
  | DbFindOne string string
  | DbUpdateOne string string message
  | DbDeleteOne string string
  | DbFind string string string int int int
  | DbCountDocuments string string
  | CacheGet string
  | CacheSet string cached int
  | CacheDel string
  | ProducerSend string messageEvent
  | EsSearch searchRequest
  | EsIndex "json option" "(string \<times> json option) list"
  | EsUpdate "json option" "json option"
  | EsDelete "json option"

datatype err =
    TenantNotSet
  | Rejected call
  | Wrapped string err
  | TypeError
  | SyntaxError

datatype level = Warn | Error

text \<open>What the code takes from outside: the tenant of the request, the identifier
  \<^verbatim>\<open>uuidv4()\<close> returns, the clock, which calls are rejected, the engine's full-text
  matching and its way of reporting totals, and \<^verbatim>\<open>JSON.parse\<close>.\<close>

record env =
  tenant_ctx :: "string option"
  uuidv4 :: string
  newDate :: int
  fails :: "call \<Rightarrow> bool"
  multi_match :: "string \<Rightarrow> message \<Rightarrow> bool"
  report_total :: "int \<Rightarrow> hitsTotal"
  JSON_parse :: "string \<Rightarrow> json option"

text \<open>The state outside the process: the collection, the cache, the topic, the search
  index, the trace of calls made and the warnings and errors logged (debug and
  information lines are not recorded).\<close>

record world =
  db :: "message list"
  cache :: "string \<rightharpoonup> cached"
  topic :: "(string \<times> messageEvent) list"
  es_index :: "message list"
  calls :: "call list"
  logs :: "(level \<times> string) list"

type_synonym 'a io = "world \<Rightarrow> (err + 'a) \<times> world"

definition return :: "'a \<Rightarrow> 'a io" where
  "return x w = (Inr x, w)"

definition throw :: "err \<Rightarrow> 'a io" where
  "throw e w = (Inl e, w)"

definition andThen :: "'a io \<Rightarrow> ('a \<Rightarrow> 'b io) \<Rightarrow> 'b io" where
  "andThen m f w = (case m w of (Inl e, w1) \<Rightarrow> (Inl e, w1) | (Inr x, w1) \<Rightarrow> f x w1)"

definition tryCatch :: "'a io \<Rightarrow> (err \<Rightarrow> 'a io) \<Rightarrow> 'a io" where
  "tryCatch m h w = (case m w of (Inl e, w1) \<Rightarrow> h e w1 | (Inr x, w1) \<Rightarrow> (Inr x, w1))"

definition logger :: "level \<Rightarrow> string \<Rightarrow> unit io" where
  "logger lvl msg w = (Inr (), w\<lparr>logs := logs w @ [(lvl, msg)]\<rparr>)"

text \<open>An awaited call: it is recorded, then either rejected or carried out.\<close>

definition perform :: "env \<Rightarrow> call \<Rightarrow> (world \<Rightarrow> 'a \<times> world) \<Rightarrow> 'a io" where
  "perform e c act w =
     (let w1 = w\<lparr>calls := calls w @ [c]\<rparr>
      in if fails e c then (Inl (Rejected c), w1)
         else (case act w1 of (r, w2) \<Rightarrow> (Inr r, w2)))"

subsection \<open>Cache manager\<close>

definition cacheGet :: "env \<Rightarrow> string \<Rightarrow> cached option io" where
  "cacheGet e k = perform e (CacheGet k) (\<lambda>w. (cache w k, w))"

definition cacheSet :: "env \<Rightarrow> string \<Rightarrow> cached \<Rightarrow> int \<Rightarrow> unit io" where
  "cacheSet e k v ttl = perform e (CacheSet k v ttl) (\<lambda>w. ((), w\<lparr>cache := (cache w)(k \<mapsto> v)\<rparr>))"

definition cacheDel :: "env \<Rightarrow> string \<Rightarrow> unit io" where
  "cacheDel e k = perform e (CacheDel k) (\<lambda>w. ((), w\<lparr>cache := (cache w)(k := None)\<rparr>))"

subsection \<open>Message repository (MongoDB)\<close>

text \<open>A document has exactly the fields of the entity, so \<^verbatim>\<open>toDatabase\<close> and
  \<^verbatim>\<open>fromDatabase\<close> copy field by field.\<close>

definition toDatabase :: "message \<Rightarrow> message" where
  "toDatabase m = \<lparr>msgId = msgId m, conversationId = conversationId m, senderId = senderId m,
     content = content m, tenantId = tenantId m, timestamp = timestamp m,
     metadata = metadata m\<rparr>"

definition fromDatabase :: "message \<Rightarrow> message" where
  "fromDatabase d = \<lparr>msgId = msgId d, conversationId = conversationId d, senderId = senderId d,
     content = content d, tenantId = tenantId d, timestamp = timestamp d,
     metadata = metadata d\<rparr>"

text \<open>\<^verbatim>\<open>updateOne\<close> and \<^verbatim>\<open>deleteOne\<close> act on the first document that matches the
  filter, \<^verbatim>\<open>findOne\<close> (\<open>find\<close>) returns it.\<close>

fun updateOne :: "('a \<Rightarrow> bool) \<Rightarrow> 'a \<Rightarrow> 'a list \<Rightarrow> 'a list" where
  "updateOne P v [] = []"
| "updateOne P v (d # ds) = (if P d then v # ds else d # updateOne P v ds)"

fun deleteOne :: "('a \<Rightarrow> bool) \<Rightarrow> 'a list \<Rightarrow> 'a list" where
  "deleteOne P [] = []"
| "deleteOne P (d # ds) = (if P d then ds else d # deleteOne P ds)"

text \<open>Sorting by a field of the document: strings compare character by character,
  timestamps as numbers; a field that is none of these leaves the order as it is.\<close>

definition field_le :: "string \<Rightarrow> message \<Rightarrow> message \<Rightarrow> bool" where
  "field_le f a b =
     (if f = ''timestamp'' then timestamp a \<le> timestamp b
      else if f = ''id'' then msgId a \<le> msgId b
      else if f = ''conversationId'' then conversationId a \<le> conversationId b
      else if f = ''senderId'' then senderId a \<le> senderId b
      else if f = ''content'' then content a \<le> content b
      else if f = ''tenantId'' then tenantId a \<le> tenantId b
      else True)"

fun insort_by :: "('a \<Rightarrow> 'a \<Rightarrow> bool) \<Rightarrow> 'a \<Rightarrow> 'a list \<Rightarrow> 'a list" where
  "insort_by le x [] = [x]"
| "insort_by le x (y # ys) = (if le x y then x # y # ys else y # insort_by le x ys)"

definition sort_by :: "('a \<Rightarrow> 'a \<Rightarrow> bool) \<Rightarrow> 'a list \<Rightarrow> 'a list" where
  "sort_by le xs = foldr (insort_by le) xs []"

definition sortDocs :: "string \<Rightarrow> int \<Rightarrow> message list \<Rightarrow> message list" where
  "sortDocs f d xs = sort_by (if d = 1 then field_le f else (\<lambda>a b. field_le f b a)) xs"

text \<open>Each repository method logs a failure of the store and throws it again.\<close>

definition save :: "env \<Rightarrow> message \<Rightarrow> message io" where
  "save e m =
     tryCatch
       (andThen (perform e (DbInsert (toDatabase m))
                   (\<lambda>w. ((), w\<lparr>db := db w @ [toDatabase m]\<rparr>)))
          (\<lambda>_. return m))
       (\<lambda>error. andThen (logger Error ''Failed to save message'') (\<lambda>_. throw error))"

definition findById :: "env \<Rightarrow> string \<Rightarrow> string \<Rightarrow> message option io" where
  "findById e i tenant =
     tryCatch
       (andThen (perform e (DbFindOne i tenant)
                   (\<lambda>w. (find (\<lambda>d. msgId d = i \<and> tenantId d = tenant) (db w), w)))
          (\<lambda>messageDocument.
             case messageDocument of
               None \<Rightarrow> return None
             | Some d \<Rightarrow> return (Some (fromDatabase d))))
       (\<lambda>error. andThen (logger Error ''Error finding message'') (\<lambda>_. throw error))"

definition update :: "env \<Rightarrow> message \<Rightarrow> message io" where
  "update e m =
     tryCatch
       (andThen (perform e (DbUpdateOne (msgId m) (tenantId m) (toDatabase m))
                   (\<lambda>w. (find (\<lambda>d. msgId d = msgId m \<and> tenantId d = tenantId m) (db w),
                         w\<lparr>db := updateOne (\<lambda>d. msgId d = msgId m \<and> tenantId d = tenantId m)
                                    (toDatabase m) (db w)\<rparr>)))
          (\<lambda>matched.
             andThen (if matched = None then logger Warn ''No message found to update''
                      else return ())
               (\<lambda>_. return m)))
       (\<lambda>error. andThen (logger Error ''Failed to update message'') (\<lambda>_. throw error))"

definition delete :: "env \<Rightarrow> string \<Rightarrow> string \<Rightarrow> unit io" where
  "delete e i tenant =
     tryCatch
       (andThen (perform e (DbDeleteOne i tenant)
                   (\<lambda>w. (find (\<lambda>d. msgId d = i \<and> tenantId d = tenant) (db w),
                         w\<lparr>db := deleteOne (\<lambda>d. msgId d = i \<and> tenantId d = tenant) (db w)\<rparr>)))
          (\<lambda>deleted.
             if deleted = None then logger Warn ''No message found to delete'' else return ()))
       (\<lambda>error. andThen (logger Error ''Failed to delete message'') (\<lambda>_. throw error))"

definition findByConversationId ::
    "env \<Rightarrow> string \<Rightarrow> string \<Rightarrow> options \<Rightarrow> conversationPage io" where
  "findByConversationId e conv tenant opts =
     tryCatch
       (let pg = max 1 (page opts);
            lm = max 1 (limit opts);
            skip = (pg - 1) * lm;
            sortOptions =
              (case sort_opt opts of
                 Some (field, dir) \<Rightarrow>
                   if field \<noteq> [] then (field, if dir = Asc then 1 else - 1)
                   else (''timestamp'', - 1)
               | None \<Rightarrow> (''timestamp'', - 1))
        in andThen (perform e (DbFind conv tenant (fst sortOptions) (snd sortOptions) skip lm)
                      (\<lambda>w. (take (nat lm) (drop (nat skip)
                                 (sortDocs (fst sortOptions) (snd sortOptions)
                                    (filter (\<lambda>d. conversationId d = conv \<and> tenantId d = tenant)
                                       (db w)))), w)))
             (\<lambda>messageDocuments.
                andThen (perform e (DbCountDocuments conv tenant)
                           (\<lambda>w. (int (length (filter
                                     (\<lambda>d. conversationId d = conv \<and> tenantId d = tenant) (db w))),
                                 w)))
                  (\<lambda>count.
                     return \<lparr>messages = map fromDatabase messageDocuments, total = count\<rparr>)))
       (\<lambda>error. andThen (logger Error ''Error finding messages by conversation'')
                   (\<lambda>_. throw error))"

subsection \<open>Message producer (Kafka)\<close>

definition produce :: "env \<Rightarrow> messageEvent \<Rightarrow> string \<Rightarrow> unit io" where
  "produce e event key =
     tryCatch
       (perform e (ProducerSend key event) (\<lambda>w. ((), w\<lparr>topic := topic w @ [(key, event)]\<rparr>)))
       (\<lambda>error. andThen (logger Error ''Failed to send message to topic'') (\<lambda>_. throw error))"

definition publishMessageEvent :: "env \<Rightarrow> eventType \<Rightarrow> payload \<Rightarrow> string \<Rightarrow> unit io" where
  "publishMessageEvent e ty pl partitionKey =
     (let event = \<lparr>ev_type = ty, ev_payload = pl, ev_timestamp = newDate e,
                   ev_version = ''1.0''\<rparr>
      in tryCatch (produce e event partitionKey)
           (\<lambda>error. andThen (logger Error ''Failed to publish event'') (\<lambda>_. throw error)))"

definition publishMessageCreated :: "env \<Rightarrow> message \<Rightarrow> unit io" where
  "publishMessageCreated e m =
     publishMessageEvent e CREATED (MessagePayload m) (conversationId m)"

definition publishMessageUpdated :: "env \<Rightarrow> message \<Rightarrow> unit io" where
  "publishMessageUpdated e m =
     publishMessageEvent e UPDATED (MessagePayload m) (conversationId m)"

definition publishMessageDeleted :: "env \<Rightarrow> string \<Rightarrow> string \<Rightarrow> string \<Rightarrow> unit io" where
  "publishMessageDeleted e i conv tenant =
     publishMessageEvent e DELETED (DeletedPayload i conv tenant) conv"

subsection \<open>Tenant context\<close>

text \<open>\<^verbatim>\<open>getCurrentTenant\<close> throws when the tenant is unset; \<^verbatim>\<open>!this.tenantId\<close> is also
  true of the empty string.\<close>

definition getCurrentTenant :: "env \<Rightarrow> string io" where
  "getCurrentTenant e =
     (case tenant_ctx e of
        None \<Rightarrow> andThen (logger Error ''Attempted to access tenant ID before it was set'')
                  (\<lambda>_. throw TenantNotSet)
      | Some t \<Rightarrow>
          if t = [] then andThen (logger Error ''Attempted to access tenant ID before it was set'')
                           (\<lambda>_. throw TenantNotSet)
          else return t)"

section \<open>Message application service\<close>

record createMessageDto =
  dto_conversationId :: string
  dto_senderId :: string
  dto_content :: string
  dto_metadata :: "metadata_map option"

record updateMessageDto =
  upd_content :: "string option"
  upd_metadata :: "metadata_map option"

definition MESSAGE_CACHE_TTL :: int where
  "MESSAGE_CACHE_TTL = 3600"

definition CONVERSATION_MESSAGES_CACHE_TTL :: int where
  "CONVERSATION_MESSAGES_CACHE_TTL = 300"

definition invalidateMessageCache :: "env \<Rightarrow> string \<Rightarrow> string \<Rightarrow> string \<Rightarrow> unit io" where
  "invalidateMessageCache e i tenant conv =
     tryCatch
       (andThen (cacheDel e (getMessageCacheKey i tenant))
          (\<lambda>_. cacheDel e (getConversationMessagesCacheKey conv tenant 1 10 None None)))
       (\<lambda>error. logger Warn ''Cache invalidation error'')"

definition createMessage :: "env \<Rightarrow> createMessageDto \<Rightarrow> message io" where
  "createMessage e dto =
     andThen (getCurrentTenant e) (\<lambda>tenant.
       let message = create (uuidv4 e) (dto_conversationId dto) (dto_senderId dto)
                       (dto_content dto) tenant (dto_metadata dto) (newDate e)
       in andThen (save e message) (\<lambda>savedMessage.
            andThen
              (tryCatch
                 (andThen (cacheSet e (getMessageCacheKey (msgId savedMessage) tenant)
                             (CachedMessage savedMessage) (MESSAGE_CACHE_TTL * 1000))
                    (\<lambda>_. cacheDel e
                            (getConversationMessagesCacheKey (conversationId message) tenant
                               1 10 None None)))
                 (\<lambda>error. logger Warn ''Cache operation error''))
              (\<lambda>_. andThen
                      (tryCatch (publishMessageCreated e savedMessage)
                         (\<lambda>error. logger Error ''Failed to publish message.created event''))
                      (\<lambda>_. return savedMessage))))"

text \<open>\<^verbatim>\<open>if (updateMessageDto.content)\<close>: an absent content and the empty string are both
  falsy. \<^verbatim>\<open>if (updateMessageDto.metadata)\<close>: every object, also the empty one, is truthy.\<close>

definition applyUpdate :: "updateMessageDto \<Rightarrow> message \<Rightarrow> message" where
  "applyUpdate dto existingMessage =
     (let m1 = (case upd_content dto of
                  None \<Rightarrow> existingMessage
                | Some c \<Rightarrow> if c = [] then existingMessage else updateContent c existingMessage)
      in case upd_metadata dto of
           None \<Rightarrow> m1
         | Some md \<Rightarrow> updateMetadata md m1)"

definition updateMessage :: "env \<Rightarrow> string \<Rightarrow> updateMessageDto \<Rightarrow> message option io" where
  "updateMessage e i dto =
     andThen (getCurrentTenant e) (\<lambda>tenant.
       andThen (findById e i tenant) (\<lambda>found.
         case found of
           None \<Rightarrow> andThen (logger Warn ''Message not found'') (\<lambda>_. return None)
         | Some existingMessage \<Rightarrow>
             andThen (update e (applyUpdate dto existingMessage)) (\<lambda>updatedMessage.
               andThen
                 (tryCatch
                    (andThen (invalidateMessageCache e i tenant (conversationId updatedMessage))
                       (\<lambda>_. cacheSet e (getMessageCacheKey i tenant)
                               (CachedMessage updatedMessage) (MESSAGE_CACHE_TTL * 1000)))
                    (\<lambda>error. logger Warn ''Cache operation error''))
                 (\<lambda>_. andThen
                         (tryCatch (publishMessageUpdated e updatedMessage)
                            (\<lambda>error. logger Error ''Failed to publish message.updated event''))
                         (\<lambda>_. return (Some updatedMessage))))))"

definition deleteMessage :: "env \<Rightarrow> string \<Rightarrow> bool io" where
  "deleteMessage e i =
     andThen (getCurrentTenant e) (\<lambda>tenant.
       andThen (findById e i tenant) (\<lambda>found.
         case found of
           None \<Rightarrow> andThen (logger Warn ''Message not found'') (\<lambda>_. return False)
         | Some existingMessage \<Rightarrow>
             let conv = conversationId existingMessage
             in andThen (delete e i tenant) (\<lambda>_.
                  andThen
                    (tryCatch (invalidateMessageCache e i tenant conv)
                       (\<lambda>error. logger Warn ''Cache invalidation error''))
                    (\<lambda>_. andThen
                            (tryCatch (publishMessageDeleted e i conv tenant)
                               (\<lambda>error. logger Error ''Failed to publish message.deleted event''))
                            (\<lambda>_. return True)))))"

text \<open>The input validation of both paginated reads: a page below 1 becomes 1 and a limit
  below 1 becomes 10, each with a warning.\<close>

definition validateOptions :: "options \<Rightarrow> options io" where
  "validateOptions opts =
     andThen (if page opts < 1
              then andThen (logger Warn ''Invalid page number, using default page 1'')
                     (\<lambda>_. return (opts\<lparr>page := 1\<rparr>))
              else return opts)
       (\<lambda>opts1. if limit opts1 < 1
                 then andThen (logger Warn ''Invalid limit, using default limit 10'')
                        (\<lambda>_. return (opts1\<lparr>limit := 10\<rparr>))
                 else return opts1)"

text \<open>A read returns what the cache holds under the key when it holds something, and
  otherwise the page it has read from the store.\<close>

definition getMessagesByConversation :: "env \<Rightarrow> string \<Rightarrow> options \<Rightarrow> cached io" where
  "getMessagesByConversation e conv opts0 =
     andThen (getCurrentTenant e) (\<lambda>tenant.
       andThen (validateOptions opts0) (\<lambda>opts.
         let cacheKey = getConversationMessagesCacheKey conv tenant (page opts) (limit opts)
                          (map_option fst (sort_opt opts)) (map_option snd (sort_opt opts))
         in andThen
              (tryCatch (cacheGet e cacheKey)
                 (\<lambda>error. andThen (logger Warn ''Cache read error'') (\<lambda>_. return None)))
              (\<lambda>cachedResult.
                 case cachedResult of
                   Some c \<Rightarrow> return c
                 | None \<Rightarrow>
                     andThen (findByConversationId e conv tenant opts) (\<lambda>result.
                       andThen
                         (tryCatch
                            (cacheSet e cacheKey (CachedPage result)
                               (CONVERSATION_MESSAGES_CACHE_TTL * 1000))
                            (\<lambda>error. logger Warn ''Cache write error''))
                         (\<lambda>_. return (CachedPage result))))))"

section \<open>Search\<close>

text \<open>The engine evaluating a request on the index: both \<^verbatim>\<open>term\<close> filters are exact
  matches on keyword fields, the full-text match is the engine's own, hits are sorted by
  timestamp, newest first, and cut to the window \<^verbatim>\<open>from\<close>, \<^verbatim>\<open>size\<close>.\<close>

definition engine_search :: "env \<Rightarrow> searchRequest \<Rightarrow> message list \<Rightarrow> searchResponse" where
  "engine_search e req docs =
     (let matched = filter (\<lambda>d. conversationId d = term_conversationId req
                                \<and> tenantId d = term_tenantId req
                                \<and> multi_match e (multi_match_query req) d) docs;
          sorted = sort_by (\<lambda>a b. timestamp b \<le> timestamp a) matched
      in \<lparr>hits = take (nat (req_size req)) (drop (nat (req_from req)) sorted),
          hits_total = report_total e (int (length matched))\<rparr>)"

definition ceilDiv :: "int \<Rightarrow> int \<Rightarrow> number" where
  "ceilDiv a b =
     (if b = 0 then (if a = 0 then NaN else if 0 < a then PosInfinity else NegInfinity)
      else Num \<lceil>real_of_int a / real_of_int b\<rceil>)"

text \<open>\<^verbatim>\<open>ElasticSearchService.searchMessages\<close>: a failure of the engine is logged and thrown
  again as a new error.\<close>

definition es_searchMessages ::
    "env \<Rightarrow> string \<Rightarrow> string \<Rightarrow> string \<Rightarrow> options \<Rightarrow> paginatedResponse io" where
  "es_searchMessages e conv tenant searchTerm opts =
     (let pg = page opts;
          lm = limit opts;
          from = (pg - 1) * lm;
          request = \<lparr>req_index = ''messages'', term_conversationId = conv,
                      term_tenantId = tenant, multi_match_query = searchTerm,
                      req_from = from, req_size = lm\<rparr>
      in tryCatch
           (andThen (perform e (EsSearch request)
                       (\<lambda>w. (engine_search e request (es_index w), w)))
              (\<lambda>result.
                 let found = hits result;
                     items = (case hits_total result of
                                TotalNumber n \<Rightarrow> n
                              | TotalObject v \<Rightarrow> if v = 0 then 0 else v
                              | TotalMissing \<Rightarrow> 0);
                     msgs = map fromDatabase found;
                     pages = ceilDiv items lm
                 in return \<lparr>data = msgs,
                      pagination = \<lparr>meta_page = pg, meta_limit = lm, totalItems = items,
                                     totalPages = pages\<rparr>\<rparr>))
           (\<lambda>error. andThen (logger Error ''Search failed'')
                       (\<lambda>_. throw (Wrapped ''Message search failed'' error))))"

definition SEARCH_CACHE_TTL :: int where
  "SEARCH_CACHE_TTL = 300"

text \<open>\<^verbatim>\<open>SearchApplicationService.searchMessages\<close>.\<close>

definition searchMessages :: "env \<Rightarrow> string \<Rightarrow> string \<Rightarrow> options \<Rightarrow> cached io" where
  "searchMessages e conv searchTerm opts0 =
     andThen (getCurrentTenant e) (\<lambda>tenant.
       andThen (validateOptions opts0) (\<lambda>opts.
         let cacheKey = getSearchCacheKey conv tenant searchTerm (page opts) (limit opts)
         in andThen
              (tryCatch (cacheGet e cacheKey)
                 (\<lambda>error. andThen (logger Warn ''Cache read error'') (\<lambda>_. return None)))
              (\<lambda>cachedResult.
                 case cachedResult of
                   Some c \<Rightarrow> return c
                 | None \<Rightarrow>
                     andThen (es_searchMessages e conv tenant searchTerm opts) (\<lambda>result.
                       andThen
                         (tryCatch
                            (cacheSet e cacheKey (CachedSearch result) (SEARCH_CACHE_TTL * 1000))
                            (\<lambda>error. logger Warn ''Cache write error''))
                         (\<lambda>_. return (CachedSearch result))))))"

section \<open>Event consumer\<close>

text \<open>A consumed record: its key and its value, each possibly null (the headers only
  feed log lines).\<close>

record kafkaMessage =
  key :: "string option"
  val :: "string option"

text \<open>Reading a property of a parsed value, \<open>None\<close> being undefined: reading from
  undefined or null throws a TypeError, an object gives the value under the key, every
  other value gives undefined.\<close>

definition getProp :: "json option \<Rightarrow> string \<Rightarrow> json option io" where
  "getProp v k =
     (case v of
        None \<Rightarrow> throw TypeError
      | Some JNull \<Rightarrow> throw TypeError
      | Some (JObj kvs) \<Rightarrow> return (map_of kvs k)
      | Some _ \<Rightarrow> return None)"

text \<open>The three writes of \<^verbatim>\<open>ElasticSearchService\<close> as the consumer calls them, on parsed
  values. The debug line before each \<^verbatim>\<open>try\<close> reads properties of its argument.\<close>

definition es_indexMessage :: "env \<Rightarrow> json option \<Rightarrow> unit io" where
  "es_indexMessage e m =
     andThen (getProp m ''id'') (\<lambda>i.
       andThen (getProp m ''conversationId'') (\<lambda>conv.
         tryCatch
           (andThen (getProp m ''senderId'') (\<lambda>sender.
              andThen (getProp m ''content'') (\<lambda>txt.
                andThen (getProp m ''timestamp'') (\<lambda>ts.
                  andThen (getProp m ''tenantId'') (\<lambda>tenant.
                    andThen (getProp m ''metadata'') (\<lambda>meta.
                      perform e
                        (EsIndex i [(''id'', i), (''conversationId'', conv),
                           (''senderId'', sender), (''content'', txt), (''timestamp'', ts),
                           (''tenantId'', tenant), (''metadata'', meta)])
                        (\<lambda>w. ((), w))))))))
           (\<lambda>error. andThen (logger Error ''Failed to index message'')
                       (\<lambda>_. throw (Wrapped ''Message indexing failed'' error)))))"

text \<open>\<^verbatim>\<open>Object.keys(partialUpdate)\<close> in the debug line throws on undefined and null.\<close>

definition es_updateMessage :: "env \<Rightarrow> json option \<Rightarrow> json option \<Rightarrow> unit io" where
  "es_updateMessage e messageId partialUpdate =
     andThen (case partialUpdate of
                None \<Rightarrow> throw TypeError
              | Some JNull \<Rightarrow> throw TypeError
              | Some _ \<Rightarrow> return ())
       (\<lambda>_. tryCatch
               (perform e (EsUpdate messageId partialUpdate) (\<lambda>w. ((), w)))
               (\<lambda>error. andThen (logger Error ''Failed to update message'')
                           (\<lambda>_. throw (Wrapped ''Message update failed'' error))))"

definition es_deleteMessage :: "env \<Rightarrow> json option \<Rightarrow> unit io" where
  "es_deleteMessage e messageId =
     tryCatch
       (perform e (EsDelete messageId) (\<lambda>w. ((), w)))
       (\<lambda>error. andThen (logger Error ''Failed to delete message'')
                   (\<lambda>_. throw (Wrapped ''Message deletion failed'' error)))"

text \<open>\<^verbatim>\<open>MessageConsumerService.handleMessage\<close>.\<close>

definition handleMessage :: "env \<Rightarrow> kafkaMessage \<Rightarrow> unit io" where
  "handleMessage e message =
     (case val message of
        None \<Rightarrow> logger Warn ''Received message with empty value''
      | Some v \<Rightarrow>
          tryCatch
            (andThen (case JSON_parse e v of
                        None \<Rightarrow> throw SyntaxError
                      | Some j \<Rightarrow> return (Some j))
               (\<lambda>event.
                  andThen (getProp event ''type'') (\<lambda>ty.
                    if ty = Some (JStr ''message.created'') then
                      andThen (getProp event ''payload'') (\<lambda>pl.
                        andThen (es_indexMessage e pl) (\<lambda>_.
                          andThen (getProp pl ''id'') (\<lambda>_. return ())))
                    else if ty = Some (JStr ''message.updated'') then
                      andThen (getProp event ''payload'') (\<lambda>pl.
                        andThen (getProp pl ''id'') (\<lambda>i.
                          andThen (es_updateMessage e i pl) (\<lambda>_. return ())))
                    else if ty = Some (JStr ''message.deleted'') then
                      andThen (getProp event ''payload'') (\<lambda>pl.
                        andThen (getProp pl ''id'') (\<lambda>i.
                          andThen (es_deleteMessage e i) (\<lambda>_. return ())))
                    else logger Warn ''Unknown event type'')))
            (\<lambda>error. logger Error ''Error processing message''))"

text \<open>\<^verbatim>\<open>BaseKafkaConsumer\<close>: the handler given to the client wraps \<open>handleMessage\<close> in a
  \<^verbatim>\<open>try\<close> of its own; the client calls it for one record after the other and stops at
  a record whose handler throws.\<close>

definition eachMessage :: "env \<Rightarrow> kafkaMessage \<Rightarrow> unit io" where
  "eachMessage e message =
     tryCatch (handleMessage e message) (\<lambda>error. logger Error ''Error processing message'')"

fun run :: "env \<Rightarrow> kafkaMessage list \<Rightarrow> unit io" where
  "run e [] = return ()"
| "run e (message # rest) = andThen (eachMessage e message) (\<lambda>_. run e rest)"

section \<open>Observations and example inputs\<close>

text \<open>The keys passed to \<^verbatim>\<open>cacheManager.del\<close> in a trace, in order.\<close>

fun deletedKeys :: "call list \<Rightarrow> string list" where
  "deletedKeys [] = []"
| "deletedKeys (CacheDel k # cs) = k # deletedKeys cs"
| "deletedKeys (c # cs) = deletedKeys cs"

text \<open>An environment in which the store works while the cache and the broker reject
  every call.\<close>

definition env_downstream_failing :: env where
  "env_downstream_failing =
     \<lparr>tenant_ctx = Some ''tenant-a'', uuidv4 = ''m-2'', newDate = 2000,
      fails = (\<lambda>c. case c of CacheGet k \<Rightarrow> True | CacheSet k v ttl \<Rightarrow> True
                       | CacheDel k \<Rightarrow> True | ProducerSend k ev \<Rightarrow> True | _ \<Rightarrow> False),
      multi_match = (\<lambda>q d. True), report_total = TotalObject, JSON_parse = (\<lambda>s. None)\<rparr>"

text \<open>An environment in which every call is carried out.\<close>

definition env_healthy :: env where
  "env_healthy =
     \<lparr>tenant_ctx = Some ''tenant-a'', uuidv4 = ''m-2'', newDate = 2000,
      fails = (\<lambda>c. False),
      multi_match = (\<lambda>q d. True), report_total = TotalObject, JSON_parse = (\<lambda>s. None)\<rparr>"

definition stored_hello :: message where
  "stored_hello =
     \<lparr>msgId = ''m-1'', conversationId = ''c-1'', senderId = ''u-1'', content = ''Hello'',
      tenantId = ''tenant-a'', timestamp = 1000, metadata = Some [''a'' \<mapsto> JNum 1]\<rparr>"

definition world_one :: world where
  "world_one = \<lparr>db = [stored_hello], cache = Map.empty, topic = [], es_index = [stored_hello],
                 calls = [], logs = []\<rparr>"

definition hello_dto :: createMessageDto where
  "hello_dto = \<lparr>dto_conversationId = ''c-1'', dto_senderId = ''u-2'', dto_content = ''Hi'',
                 dto_metadata = None\<rparr>"

definition edit_dto :: updateMessageDto where
  "edit_dto = \<lparr>upd_content = Some ''Bye'', upd_metadata = Some [''b'' \<mapsto> JNum 2]\<rparr>"

definition blank_content_dto :: updateMessageDto where
  "blank_content_dto = \<lparr>upd_content = Some [], upd_metadata = Some [''b'' \<mapsto> JNum 2]\<rparr>"

text \<open>A consumer environment: the engine rejects every write, and three payloads
  parse (an event of a known type, one of an unknown type, and \<^verbatim>\<open>null\<close>).\<close>

definition created_event :: json where
  "created_event =
     JObj [(''type'', JStr ''message.created''),
           (''payload'', JObj [(''id'', JStr ''m-1''), (''conversationId'', JStr ''c-1''),
                               (''content'', JStr ''Hello'')])]"

text \<open>A string between double quotes, for writing JSON text.\<close>

definition quoted :: "string \<Rightarrow> string" where
  "quoted s = CHR 0x22 # s @ [CHR 0x22]"

definition created_text :: string where
  "created_text =
     ''{'' @ quoted ''type'' @ '':'' @ quoted ''message.created'' @ '','' @ quoted ''payload''
       @ '':{'' @ quoted ''id'' @ '':'' @ quoted ''m-1'' @ '','' @ quoted ''conversationId''
       @ '':'' @ quoted ''c-1'' @ '','' @ quoted ''content'' @ '':'' @ quoted ''Hello'' @ ''}}''"

definition archived_text :: string where
  "archived_text = ''{'' @ quoted ''type'' @ '':'' @ quoted ''message.archived'' @ ''}''"

definition env_engine_down :: env where
  "env_engine_down =
     \<lparr>tenant_ctx = None, uuidv4 = ''m-2'', newDate = 2000,
      fails = (\<lambda>c. case c of EsIndex i doc \<Rightarrow> True | EsUpdate i doc \<Rightarrow> True
                       | EsDelete i \<Rightarrow> True | _ \<Rightarrow> False),
      multi_match = (\<lambda>q d. True), report_total = TotalObject,
      JSON_parse = (\<lambda>s. if s = created_text then Some created_event
                          else if s = archived_text then Some (JObj [(''type'', JStr ''message.archived'')])
                          else if s = ''null'' then Some JNull
                          else None)\<rparr>"

definition world_empty :: world where
  "world_empty = \<lparr>db = [], cache = Map.empty, topic = [], es_index = [], calls = [], logs = []\<rparr>"

text \<open>The correction of page and limit in the words of the specification: a page of at
  most 0 is replaced by 1, a limit of at most 0 by 10.\<close>

definition corrected :: "options \<Rightarrow> options" where
  "corrected opts =
     opts\<lparr>page := (if page opts \<le> 0 then 1 else page opts),
          limit := (if limit opts \<le> 0 then 10 else limit opts)\<rparr>"

text \<open>The warnings the validation writes.\<close>

definition validationWarnings :: "options \<Rightarrow> (level \<times> string) list" where
  "validationWarnings opts =
     (if page opts < 1 then [(Warn, ''Invalid page number, using default page 1'')] else [])
     @ (if limit opts < 1 then [(Warn, ''Invalid limit, using default limit 10'')] else [])"

definition negative_options :: options where
  "negative_options = \<lparr>page = - 1, limit = 0, sort_opt = None\<rparr>"

definition first_page :: options where
  "first_page = \<lparr>page = 1, limit = 10, sort_opt = None\<rparr>"

definition world_42 :: world where
  "world_42 = \<lparr>db = [], cache = Map.empty, topic = [], es_index = replicate 42 stored_hello,
                calls = [], logs = []\<rparr>"



text \<open>Reading a decimal numeral back, used to show that rendering is injective.\<close>

definition digit_val :: "char \<Rightarrow> nat" where
  "digit_val c = of_char c - 48"

definition nat_of_digits :: "string \<Rightarrow> nat" where
  "nat_of_digits cs = foldl (\<lambda>a c. 10 * a + digit_val c) 0 cs"

text \<open>A cache that holds the message, the first page of its conversation at limit 10,
  the second page at limit 10 and the first page at limit 20.\<close>

definition page_of_hello :: cached where
  "page_of_hello = CachedPage \<lparr>messages = [stored_hello], total = 1\<rparr>"

definition world_cached :: world where
  "world_cached =
     \<lparr>db = [stored_hello],
      cache = [''message:tenant-a:m-1'' \<mapsto> CachedMessage stored_hello,
               ''conversation-messages:tenant-a:c-1:1:10:timestamp:desc'' \<mapsto> page_of_hello,
               ''conversation-messages:tenant-a:c-1:2:10:timestamp:desc'' \<mapsto> page_of_hello,
               ''conversation-messages:tenant-a:c-1:1:20:timestamp:desc'' \<mapsto> page_of_hello],
      topic = [], es_index = [stored_hello], calls = [], logs = []\<rparr>"

section \<open>Properties\<close>

lemmas io_defs = andThen_def tryCatch_def perform_def return_def throw_def logger_def Let_def

lemmas svc_defs = getCurrentTenant_def save_def findById_def update_def delete_def
  cacheSet_def cacheDel_def cacheGet_def invalidateMessageCache_def
  publishMessageCreated_def publishMessageUpdated_def publishMessageDeleted_def
  publishMessageEvent_def produce_def

lemma toDatabase_id: "toDatabase m = m"
  by (simp add: toDatabase_def)

lemma fromDatabase_id: "fromDatabase m = m"
  by (simp add: fromDatabase_def)

subsection \<open>Soft failures after the store write\<close>

text \<open>
  C1. Once the tenant is resolved and the store has carried out the calls of a write,
  \<open>createMessage\<close> returns the created message, \<open>updateMessage\<close> the updated message
  and \<open>deleteMessage\<close> true, whichever cache calls (set, delete) and whichever
  publication are rejected: nothing is assumed of \<open>fails\<close> on those calls.
\<close>

theorem soft_failures_keep_success:
  assumes "tenant_ctx e = Some t" and "t \<noteq> []"
  shows "(\<not> fails e (DbInsert (create (uuidv4 e) (dto_conversationId dto) (dto_senderId dto)
                                 (dto_content dto) t (dto_metadata dto) (newDate e)))
          \<longrightarrow> fst (createMessage e dto w) =
                Inr (create (uuidv4 e) (dto_conversationId dto) (dto_senderId dto)
                       (dto_content dto) t (dto_metadata dto) (newDate e)))
       \<and> (\<not> fails e (DbFindOne i t)
            \<and> find (\<lambda>d. msgId d = i \<and> tenantId d = t) (db w) = Some d
            \<and> \<not> fails e (DbUpdateOne (msgId (applyUpdate upd d)) (tenantId (applyUpdate upd d))
                             (applyUpdate upd d))
          \<longrightarrow> fst (updateMessage e i upd w) = Inr (Some (applyUpdate upd d)))
       \<and> (\<not> fails e (DbFindOne i t)
            \<and> find (\<lambda>d. msgId d = i \<and> tenantId d = t) (db w) = Some d
            \<and> \<not> fails e (DbDeleteOne i t)
          \<longrightarrow> fst (deleteMessage e i w) = Inr True)"
proof (intro conjI impI)
  assume "\<not> fails e (DbInsert (create (uuidv4 e) (dto_conversationId dto) (dto_senderId dto)
                                 (dto_content dto) t (dto_metadata dto) (newDate e)))"
  with assms show "fst (createMessage e dto w) =
                Inr (create (uuidv4 e) (dto_conversationId dto) (dto_senderId dto)
                       (dto_content dto) t (dto_metadata dto) (newDate e))"
    by (simp add: createMessage_def io_defs svc_defs toDatabase_id)
next
  assume "\<not> fails e (DbFindOne i t)
            \<and> find (\<lambda>d. msgId d = i \<and> tenantId d = t) (db w) = Some d
            \<and> \<not> fails e (DbUpdateOne (msgId (applyUpdate upd d)) (tenantId (applyUpdate upd d))
                             (applyUpdate upd d))"
  with assms show "fst (updateMessage e i upd w) = Inr (Some (applyUpdate upd d))"
    by (simp add: updateMessage_def io_defs svc_defs toDatabase_id fromDatabase_id)
next
  assume "\<not> fails e (DbFindOne i t)
            \<and> find (\<lambda>d. msgId d = i \<and> tenantId d = t) (db w) = Some d
            \<and> \<not> fails e (DbDeleteOne i t)"
  with assms show "fst (deleteMessage e i w) = Inr True"
    by (simp add: deleteMessage_def io_defs svc_defs)
qed

theorem soft_failures_keep_success_witness:
  "fails env_downstream_failing (CacheDel ''message:tenant-a:m-1'')
   \<and> fst (createMessage env_downstream_failing hello_dto world_one) =
         Inr \<lparr>msgId = ''m-2'', conversationId = ''c-1'', senderId = ''u-2'', content = ''Hi'',
              tenantId = ''tenant-a'', timestamp = 2000, metadata = None\<rparr>
   \<and> fst (updateMessage env_downstream_failing ''m-1'' edit_dto world_one) =
         Inr (Some (stored_hello\<lparr>content := ''Bye'',
                      metadata := Some [''a'' \<mapsto> JNum 1, ''b'' \<mapsto> JNum 2]\<rparr>))
   \<and> fst (deleteMessage env_downstream_failing ''m-1'' world_one) = Inr True"
  using soft_failures_keep_success [of env_downstream_failing "''tenant-a''" hello_dto world_one
          "''m-1''" stored_hello edit_dto]
  by (simp add: env_downstream_failing_def world_one_def stored_hello_def hello_dto_def
        edit_dto_def create_def applyUpdate_def updateContent_def updateMetadata_def spread_def)

subsection \<open>Metadata merge\<close>

text \<open>
  C5. \<open>updateMetadata\<close> is a shallow merge: the new metadata maps a key to the value
  of the update map \<open>N\<close> when \<open>N\<close> has the key and to the old value otherwise (an absent
  old metadata counts as empty). Updating \<open>{a: 1}\<close> with \<open>{b: 2}\<close> gives
  \<open>{a: 1, b: 2}\<close>, and a key present in both takes the new value.
\<close>

theorem updateMetadata_shallow_merge:
  "metadata (updateMetadata N m) =
     Some (\<lambda>k. case N k of Some v \<Rightarrow> Some v | None \<Rightarrow> spread (metadata m) k)
   \<and> metadata (updateMetadata [''b'' \<mapsto> JNum 2] (m\<lparr>metadata := Some [''a'' \<mapsto> JNum 1]\<rparr>))
       = Some [''a'' \<mapsto> JNum 1, ''b'' \<mapsto> JNum 2]
   \<and> metadata (updateMetadata [''a'' \<mapsto> JNum 7] (m\<lparr>metadata := Some [''a'' \<mapsto> JNum 1]\<rparr>))
       = Some [''a'' \<mapsto> JNum 7]"
proof (intro conjI)
  show "metadata (updateMetadata N m) =
     Some (\<lambda>k. case N k of Some v \<Rightarrow> Some v | None \<Rightarrow> spread (metadata m) k)"
    by (auto simp: updateMetadata_def map_add_def fun_eq_iff split: option.splits)
  show "metadata (updateMetadata [''b'' \<mapsto> JNum 2] (m\<lparr>metadata := Some [''a'' \<mapsto> JNum 1]\<rparr>))
       = Some [''a'' \<mapsto> JNum 1, ''b'' \<mapsto> JNum 2]"
    by (simp add: updateMetadata_def spread_def)
  show "metadata (updateMetadata [''a'' \<mapsto> JNum 7] (m\<lparr>metadata := Some [''a'' \<mapsto> JNum 1]\<rparr>))
       = Some [''a'' \<mapsto> JNum 7]"
    by (simp add: updateMetadata_def spread_def)
qed

subsection \<open>Search cache key\<close>

lemma normalize_messy: "normalizeSearchTerm ''  Test   QUERY  '' = ''test query''"
  by code_simp

lemma normalize_clean: "normalizeSearchTerm ''test query'' = ''test query''"
  by code_simp

text \<open>The two character classes by code unit.\<close>

lemma isSpace_code:
  "isSpace c \<longleftrightarrow> (9 \<le> (of_char c :: nat) \<and> (of_char c :: nat) \<le> 13)
       \<or> (of_char c :: nat) = 32 \<or> (of_char c :: nat) = 160"
proof -
  have e: "(c = d) = ((of_char c :: nat) = of_char d)" for d :: char
    by simp
  show ?thesis
    unfolding isSpace_def e[of "CHR 0x09"] e[of "CHR 0x0A"] e[of "CHR 0x0B"] e[of "CHR 0x0C"]
      e[of "CHR 0x0D"] e[of "CHR 0x20"] e[of "CHR 0xA0"]
    by (simp only: of_char_Char) (simp; arith)
qed

lemma lowerChar_code:
  "lowerChar c =
     (if (65 \<le> (of_char c :: nat) \<and> (of_char c :: nat) \<le> 90)
         \<or> (192 \<le> (of_char c :: nat) \<and> (of_char c :: nat) \<le> 222 \<and> (of_char c :: nat) \<noteq> 215)
      then char_of (of_char c + (32::nat)) else c)"
proof -
  have e: "(c = d) = ((of_char c :: nat) = of_char d)" for d :: char
    by simp
  show ?thesis
    unfolding lowerChar_def less_eq_char_def e[of "CHR 0xD7"]
    by simp
qed

lemma isSpace_lowerChar: "isSpace (lowerChar c) = isSpace c"
  unfolding isSpace_code lowerChar_code
  by (auto simp: Let_def)

lemma lowerChar_space: "isSpace c \<Longrightarrow> lowerChar c = c"
  unfolding isSpace_code lowerChar_code by auto

lemma lowerChar_idem: "lowerChar (lowerChar c) = lowerChar c"
  unfolding lowerChar_code[of "lowerChar c"]
  unfolding lowerChar_code[of c]
  by auto


lemma trim_left: "list_all isSpace l \<Longrightarrow> trim (l @ s) = trim s"
  by (simp add: trim_def dropWhile_append2 list_all_iff)

lemma trim_right:
  assumes "list_all isSpace r"
  shows "trim (s @ r) = trim s"
proof (cases "list_all isSpace s")
  case True
  with assms have e: "dropWhile isSpace (s @ r) = []" "dropWhile isSpace s = []"
    unfolding dropWhile_eq_Nil_conv by (auto simp: list_all_iff)
  show ?thesis unfolding trim_def e by simp
next
  case False
  then obtain x where x: "x \<in> set s" "\<not> isSpace x"
    by (auto simp: list_all_iff)
  then have "dropWhile isSpace (s @ r) = dropWhile isSpace s @ r"
    by (rule dropWhile_append1)
  then have "rev (dropWhile isSpace (s @ r)) = rev r @ rev (dropWhile isSpace s)"
    by simp
  moreover have "dropWhile isSpace (rev r @ rev (dropWhile isSpace s)) =
      dropWhile isSpace (rev (dropWhile isSpace s))"
    using assms by (intro dropWhile_append2) (simp add: list_all_iff)
  ultimately show ?thesis by (simp add: trim_def)
qed

lemma trim_middle:
  assumes "\<not> list_all isSpace a" and "\<not> list_all isSpace b"
  shows "trim (a @ m @ b) = dropWhile isSpace a @ m @ rev (dropWhile isSpace (rev b))"
proof -
  from assms(1) obtain x where x: "x \<in> set a" "\<not> isSpace x"
    by (auto simp: list_all_iff)
  from assms(2) obtain y where y: "y \<in> set (rev b)" "\<not> isSpace y"
    by (auto simp: list_all_iff)
  have "dropWhile isSpace (a @ m @ b) = dropWhile isSpace a @ m @ b"
    using x by (rule dropWhile_append1)
  then have "rev (dropWhile isSpace (a @ m @ b)) = rev b @ (rev m @ rev (dropWhile isSpace a))"
    by simp
  moreover have "dropWhile isSpace (rev b @ (rev m @ rev (dropWhile isSpace a))) =
      dropWhile isSpace (rev b) @ (rev m @ rev (dropWhile isSpace a))"
    using y by (rule dropWhile_append1)
  ultimately show ?thesis by (simp add: trim_def)
qed

lemma dropWhile_isSpace_lower:
  "dropWhile isSpace (map lowerChar xs) = map lowerChar (dropWhile isSpace xs)"
proof -
  have "isSpace \<circ> lowerChar = isSpace"
    by (rule ext) (simp add: isSpace_lowerChar)
  then show ?thesis
    by (simp add: dropWhile_map)
qed

lemma trim_toLowerCase: "trim (toLowerCase s) = toLowerCase (trim s)"
  by (simp add: trim_def toLowerCase_def dropWhile_isSpace_lower rev_map)

lemma normalize_by_lower:
  "normalizeSearchTerm s = replaceSpaceRuns (trim (toLowerCase s))"
  by (simp add: normalizeSearchTerm_def trim_toLowerCase)

lemma toLowerCase_spaces: "list_all isSpace ws \<Longrightarrow> toLowerCase ws = ws"
  by (induction ws) (simp_all add: toLowerCase_def lowerChar_space)

lemma replaceSpaceRuns_run:
  assumes "ws \<noteq> []" and "list_all isSpace ws"
  shows "replaceSpaceRuns (a @ ws @ b) = replaceSpaceRuns (a @ CHR '' '' # b)"
proof (induction a rule: replaceSpaceRuns.induct)
  case 1
  from assms obtain w ws' where ws: "ws = w # ws'" "isSpace w" "list_all isSpace ws'"
    by (cases ws) auto
  have sp: "isSpace (CHR '' '')" by (simp add: isSpace_def)
  have "dropWhile isSpace (ws' @ b) = dropWhile isSpace b"
    using ws(3) by (intro dropWhile_append2) (simp add: list_all_iff)
  with ws sp show ?case by simp
next
  case (2 c cs)
  show ?case
  proof (cases "isSpace c")
    case False
    with 2 show ?thesis by simp
  next
    case True
    have sp: "isSpace (CHR '' '')" by (simp add: isSpace_def)
    show ?thesis
    proof (cases "list_all isSpace cs")
      case all: True
      have "dropWhile isSpace (cs @ ws @ b) = dropWhile isSpace b"
        using all assms(2)
        by (simp add: dropWhile_append2 list_all_iff)
      moreover have "dropWhile isSpace (cs @ CHR '' '' # b) = dropWhile isSpace b"
        using all sp by (simp add: dropWhile_append2 list_all_iff)
      ultimately show ?thesis using True by simp
    next
      case some: False
      then obtain x where x: "x \<in> set cs" "\<not> isSpace x"
        by (auto simp: list_all_iff)
      have "dropWhile isSpace (cs @ ws @ b) = dropWhile isSpace cs @ ws @ b"
        using x by (rule dropWhile_append1)
      moreover have "dropWhile isSpace (cs @ CHR '' '' # b) = dropWhile isSpace cs @ CHR '' '' # b"
        using x by (rule dropWhile_append1)
      ultimately show ?thesis using True 2(1)[OF True] by simp
    qed
  qed
qed


lemma normalize_surrounding:
  "list_all isSpace l \<Longrightarrow> list_all isSpace r \<Longrightarrow>
   normalizeSearchTerm (l @ s @ r) = normalizeSearchTerm s"
  by (simp add: normalizeSearchTerm_def trim_left trim_right)

lemma normalize_case:
  "toLowerCase s = toLowerCase s' \<Longrightarrow> normalizeSearchTerm s = normalizeSearchTerm s'"
  by (simp add: normalize_by_lower)

lemma normalize_run:
  assumes "ws \<noteq> []" and "list_all isSpace ws"
  shows "normalizeSearchTerm (a @ ws @ b) = normalizeSearchTerm (a @ CHR '' '' # b)"
proof -
  have sp: "list_all isSpace [CHR '' '']"
    by (simp add: isSpace_def)
  consider (left) "list_all isSpace a" | (right) "list_all isSpace b"
    | (middle) "\<not> list_all isSpace a" "\<not> list_all isSpace b"
    by blast
  then show ?thesis
  proof cases
    case left
    with assms(2) sp have "trim ((a @ ws) @ b) = trim b" "trim ((a @ [CHR '' '']) @ b) = trim b"
      by (simp_all only: trim_left list_all_append simp_thms)
    then show ?thesis by (simp add: normalizeSearchTerm_def)
  next
    case right
    with assms(2) sp have "trim (a @ (ws @ b)) = trim a" "trim (a @ ([CHR '' ''] @ b)) = trim a"
      by (simp_all only: trim_right list_all_append simp_thms)
    then show ?thesis by (simp add: normalizeSearchTerm_def)
  next
    case middle
    have "toLowerCase (trim (a @ ws @ b)) =
        toLowerCase (dropWhile isSpace a) @ ws @ toLowerCase (rev (dropWhile isSpace (rev b)))"
      unfolding trim_middle[OF middle]
      using toLowerCase_spaces[OF assms(2)] by (simp add: toLowerCase_def)
    moreover have "toLowerCase (trim (a @ [CHR '' ''] @ b)) =
        toLowerCase (dropWhile isSpace a) @ CHR '' '' #
          toLowerCase (rev (dropWhile isSpace (rev b)))"
      unfolding trim_middle[OF middle]
      using toLowerCase_spaces[OF sp] by (simp add: toLowerCase_def)
    ultimately show ?thesis
      using replaceSpaceRuns_run[OF assms]
      by (simp add: normalizeSearchTerm_def)
  qed
qed

lemma normalize_latin:
  "normalizeSearchTerm (CHR 0xC9 # ''COLE'') = normalizeSearchTerm (CHR 0xE9 # ''cole'')"
  by code_simp

lemma normalize_nbsp:
  "normalizeSearchTerm (CHR 0xA0 # ''Test'' @ [CHR 0xA0, CHR 0x09] @ ''QUERY'' @ [CHR 0xA0]) =
     ''test query''"
  by code_simp

text \<open>
  C7. The search cache key is \<open>search:messages:{tenant}:{conversationId}:{term}:{page}:{limit}\<close>
  with the term trimmed, lower-cased and its runs of white space replaced by one space.
  Two terms that are equal after that normalisation give the same key; so do two terms
  that differ only in surrounding white space, only in letter case, or only in the white
  space that makes up a run between two parts. \<open>"  Test   QUERY  "\<close> and
  \<open>"test query"\<close> give the same key, also with no-break spaces and a tab as white space,
  and so do the Latin-1 words \<open>ECOLE\<close> and \<open>ecole\<close> written with an accented first
  letter (U+00C9, U+00E9).
\<close>

theorem search_key_normalised:
  "getSearchCacheKey conv tenant s pg lm =
     ''search:messages:'' @ tenant @ '':'' @ conv @ '':''
       @ replaceSpaceRuns (toLowerCase (trim s)) @ '':'' @ string_of_int pg @ '':''
       @ string_of_int lm
   \<and> (replaceSpaceRuns (toLowerCase (trim s)) = replaceSpaceRuns (toLowerCase (trim s'))
        \<longrightarrow> getSearchCacheKey conv tenant s pg lm = getSearchCacheKey conv tenant s' pg lm)
   \<and> (list_all isSpace l \<and> list_all isSpace r
        \<longrightarrow> getSearchCacheKey conv tenant (l @ s @ r) pg lm =
             getSearchCacheKey conv tenant s pg lm)
   \<and> (toLowerCase s = toLowerCase s'
        \<longrightarrow> getSearchCacheKey conv tenant s pg lm = getSearchCacheKey conv tenant s' pg lm)
   \<and> (ws \<noteq> [] \<and> list_all isSpace ws \<and> ws' \<noteq> [] \<and> list_all isSpace ws'
        \<longrightarrow> getSearchCacheKey conv tenant (a @ ws @ b) pg lm =
             getSearchCacheKey conv tenant (a @ ws' @ b) pg lm)
   \<and> getSearchCacheKey conv tenant ''  Test   QUERY  '' pg lm =
       getSearchCacheKey conv tenant ''test query'' pg lm
   \<and> getSearchCacheKey conv tenant
         (CHR 0xA0 # ''Test'' @ [CHR 0xA0, CHR 0x09] @ ''QUERY'' @ [CHR 0xA0]) pg lm =
       getSearchCacheKey conv tenant ''test query'' pg lm
   \<and> getSearchCacheKey conv tenant (CHR 0xC9 # ''COLE'') pg lm =
       getSearchCacheKey conv tenant (CHR 0xE9 # ''cole'') pg lm"
proof (intro conjI impI)
  show "getSearchCacheKey conv tenant s pg lm =
     ''search:messages:'' @ tenant @ '':'' @ conv @ '':''
       @ replaceSpaceRuns (toLowerCase (trim s)) @ '':'' @ string_of_int pg @ '':''
       @ string_of_int lm"
    by (simp add: getSearchCacheKey_def normalizeSearchTerm_def)
next
  assume "replaceSpaceRuns (toLowerCase (trim s)) = replaceSpaceRuns (toLowerCase (trim s'))"
  then show "getSearchCacheKey conv tenant s pg lm = getSearchCacheKey conv tenant s' pg lm"
    by (simp add: getSearchCacheKey_def normalizeSearchTerm_def)
next
  assume "list_all isSpace l \<and> list_all isSpace r"
  then show "getSearchCacheKey conv tenant (l @ s @ r) pg lm =
             getSearchCacheKey conv tenant s pg lm"
    by (simp add: getSearchCacheKey_def normalize_surrounding)
next
  assume "toLowerCase s = toLowerCase s'"
  then have "normalizeSearchTerm s = normalizeSearchTerm s'"
    by (rule normalize_case)
  then show "getSearchCacheKey conv tenant s pg lm = getSearchCacheKey conv tenant s' pg lm"
    by (simp add: getSearchCacheKey_def)
next
  assume h: "ws \<noteq> [] \<and> list_all isSpace ws \<and> ws' \<noteq> [] \<and> list_all isSpace ws'"
  then have "normalizeSearchTerm (a @ ws @ b) = normalizeSearchTerm (a @ CHR '' '' # b)"
    and "normalizeSearchTerm (a @ ws' @ b) = normalizeSearchTerm (a @ CHR '' '' # b)"
    by (simp_all add: normalize_run)
  then show "getSearchCacheKey conv tenant (a @ ws @ b) pg lm =
             getSearchCacheKey conv tenant (a @ ws' @ b) pg lm"
    by (simp add: getSearchCacheKey_def)
next
  show "getSearchCacheKey conv tenant ''  Test   QUERY  '' pg lm =
       getSearchCacheKey conv tenant ''test query'' pg lm"
    by (simp add: getSearchCacheKey_def normalize_messy normalize_clean)
next
  show "getSearchCacheKey conv tenant
         (CHR 0xA0 # ''Test'' @ [CHR 0xA0, CHR 0x09] @ ''QUERY'' @ [CHR 0xA0]) pg lm =
       getSearchCacheKey conv tenant ''test query'' pg lm"
    unfolding getSearchCacheKey_def normalize_nbsp normalize_clean by (rule refl)
next
  show "getSearchCacheKey conv tenant (CHR 0xC9 # ''COLE'') pg lm =
       getSearchCacheKey conv tenant (CHR 0xE9 # ''cole'') pg lm"
    unfolding getSearchCacheKey_def normalize_latin by (rule refl)
qed

theorem search_key_normalised_witness:
  "replaceSpaceRuns (toLowerCase (trim ''Hello   World'')) =
     replaceSpaceRuns (toLowerCase (trim '' hello world ''))
   \<and> getSearchCacheKey ''c-1'' ''tenant-a'' ''Hello   World'' 2 10 =
       getSearchCacheKey ''c-1'' ''tenant-a'' '' hello world '' 2 10
   \<and> getSearchCacheKey ''c-1'' ''tenant-a'' ''Hello   World'' 2 10 =
       ''search:messages:tenant-a:c-1:hello world:2:10''
   \<and> list_all isSpace [CHR 0xA0, CHR 0x20] \<and> list_all isSpace [CHR 0x09]
   \<and> getSearchCacheKey ''c-1'' ''tenant-a''
         ([CHR 0xA0, CHR 0x20] @ ''Hello   World'' @ [CHR 0x09]) 2 10 =
       getSearchCacheKey ''c-1'' ''tenant-a'' ''Hello   World'' 2 10
   \<and> toLowerCase ''Hello   World'' = toLowerCase ''hELLO   wORLD''
   \<and> getSearchCacheKey ''c-1'' ''tenant-a'' ''Hello   World'' 2 10 =
       getSearchCacheKey ''c-1'' ''tenant-a'' ''hELLO   wORLD'' 2 10
   \<and> [CHR 0x09, CHR 0xA0] \<noteq> [] \<and> list_all isSpace [CHR 0x09, CHR 0xA0]
   \<and> [CHR 0x20] \<noteq> [] \<and> list_all isSpace [CHR 0x20]
   \<and> getSearchCacheKey ''c-1'' ''tenant-a'' (''Hello'' @ [CHR 0x09, CHR 0xA0] @ ''World'') 2 10 =
       getSearchCacheKey ''c-1'' ''tenant-a'' (''Hello'' @ [CHR 0x20] @ ''World'') 2 10"
proof -
  have n: "replaceSpaceRuns (toLowerCase (trim ''Hello   World'')) =
     replaceSpaceRuns (toLowerCase (trim '' hello world ''))"
    by code_simp
  have k: "getSearchCacheKey ''c-1'' ''tenant-a'' ''Hello   World'' 2 10 =
       ''search:messages:tenant-a:c-1:hello world:2:10''"
    by code_simp
  have sp: "list_all isSpace [CHR 0xA0, CHR 0x20] \<and> list_all isSpace [CHR 0x09]"
    by (simp add: isSpace_def)
  have lc: "toLowerCase ''Hello   World'' = toLowerCase ''hELLO   wORLD''"
    by code_simp
  have run: "[CHR 0x09, CHR 0xA0] \<noteq> [] \<and> list_all isSpace [CHR 0x09, CHR 0xA0]
      \<and> [CHR 0x20] \<noteq> [] \<and> list_all isSpace [CHR 0x20]"
    by (simp add: isSpace_def)
  show ?thesis
    using n k sp lc run
      search_key_normalised [where conv = "''c-1''" and tenant = "''tenant-a''"
        and s = "''Hello   World''" and s' = "'' hello world ''" and pg = 2 and lm = 10
        and l = "[CHR 0xA0, CHR 0x20]" and r = "[CHR 0x09]"
        and ws = "[CHR 0x09, CHR 0xA0]" and ws' = "[CHR 0x20]"
        and a = "''Hello''" and b = "''World''"]
      search_key_normalised [where conv = "''c-1''" and tenant = "''tenant-a''"
        and s = "''Hello   World''" and s' = "''hELLO   wORLD''" and pg = 2 and lm = 10]
    by blast
qed

subsection \<open>Updating a message\<close>

lemma find_updateOne:
  "find P xs = Some d \<Longrightarrow> P v \<Longrightarrow> find P (updateOne P v xs) = Some v"
  by (induction xs) (auto split: if_splits)

lemma find_Some_holds: "find P xs = Some d \<Longrightarrow> P d"
  by (induction xs) (auto split: if_splits)

lemma applyUpdate_fixed:
  "msgId (applyUpdate upd d) = msgId d"
  "conversationId (applyUpdate upd d) = conversationId d"
  "senderId (applyUpdate upd d) = senderId d"
  "tenantId (applyUpdate upd d) = tenantId d"
  "timestamp (applyUpdate upd d) = timestamp d"
  by (simp_all add: applyUpdate_def updateContent_def updateMetadata_def Let_def
        split: option.splits)

lemma applyUpdate_shape:
  "applyUpdate upd d = d\<lparr>content := content (applyUpdate upd d),
                          metadata := metadata (applyUpdate upd d)\<rparr>"
  by (simp add: applyUpdate_def updateContent_def updateMetadata_def Let_def
        split: option.splits)

text \<open>A successful update found a document for the tenant, returns that document with
  the update applied, and has written it over the first matching document.\<close>

lemma updateMessage_success:
  assumes "updateMessage e i upd w = (Inr (Some m'), w')"
  shows "\<exists>t d. tenant_ctx e = Some t
           \<and> find (\<lambda>d. msgId d = i \<and> tenantId d = t) (db w) = Some d
           \<and> m' = applyUpdate upd d
           \<and> db w' = updateOne (\<lambda>d. msgId d = i \<and> tenantId d = t) m' (db w)"
proof -
  obtain t where t: "tenant_ctx e = Some t" "t \<noteq> []"
    using assms
    by (cases "tenant_ctx e")
       (auto simp: updateMessage_def getCurrentTenant_def andThen_def throw_def logger_def
          split: if_splits)
  from assms t obtain d where d: "find (\<lambda>d. msgId d = i \<and> tenantId d = t) (db w) = Some d"
    by (cases "find (\<lambda>d. msgId d = i \<and> tenantId d = t) (db w)")
       (auto simp: updateMessage_def io_defs svc_defs split: if_splits)
  have k: "msgId d = i" "tenantId d = t"
    using find_Some_holds[OF d] by auto
  from assms t d k have "m' = applyUpdate upd d
      \<and> db w' = updateOne (\<lambda>d. msgId d = i \<and> tenantId d = t) m' (db w)"
    by (auto simp: updateMessage_def io_defs svc_defs toDatabase_id fromDatabase_id
          applyUpdate_fixed split: if_splits)
  with t d show ?thesis by blast
qed

text \<open>
  C4. After a successful \<open>updateMessage\<close> the message returned is the one persisted
  (the lookup by id and tenant finds it in the new collection), and it has the id,
  conversationId, senderId, tenantId and timestamp of the message stored before: it is
  that message with at most content and metadata replaced.
\<close>

theorem update_keeps_identity:
  assumes "updateMessage e i upd w = (Inr (Some m'), w')"
  shows "\<exists>t d. tenant_ctx e = Some t
           \<and> find (\<lambda>x. msgId x = i \<and> tenantId x = t) (db w) = Some d
           \<and> find (\<lambda>x. msgId x = i \<and> tenantId x = t) (db w') = Some m'
           \<and> msgId m' = msgId d \<and> conversationId m' = conversationId d
           \<and> senderId m' = senderId d \<and> tenantId m' = tenantId d
           \<and> timestamp m' = timestamp d
           \<and> m' = d\<lparr>content := content m', metadata := metadata m'\<rparr>"
proof -
  from updateMessage_success[OF assms] obtain t d where
    t: "tenant_ctx e = Some t" and
    d: "find (\<lambda>x. msgId x = i \<and> tenantId x = t) (db w) = Some d" and
    m': "m' = applyUpdate upd d" and
    db': "db w' = updateOne (\<lambda>x. msgId x = i \<and> tenantId x = t) m' (db w)"
    by blast
  have "msgId d = i \<and> tenantId d = t"
    using find_Some_holds[OF d] .
  then have "msgId m' = i \<and> tenantId m' = t"
    by (simp add: m' applyUpdate_fixed)
  with d have "find (\<lambda>x. msgId x = i \<and> tenantId x = t) (db w') = Some m'"
    unfolding db' by (intro find_updateOne) auto
  moreover have "m' = d\<lparr>content := content m', metadata := metadata m'\<rparr>"
    unfolding m' by (rule applyUpdate_shape)
  ultimately show ?thesis
    using t d by (auto simp: m' applyUpdate_fixed)
qed

theorem update_keeps_identity_witness:
  "fst (updateMessage env_healthy ''m-1'' edit_dto world_one) =
     Inr (Some (stored_hello\<lparr>content := ''Bye'',
                  metadata := Some [''a'' \<mapsto> JNum 1, ''b'' \<mapsto> JNum 2]\<rparr>))
   \<and> find (\<lambda>x. msgId x = ''m-1'' \<and> tenantId x = ''tenant-a'')
         (db (snd (updateMessage env_healthy ''m-1'' edit_dto world_one))) =
       Some (stored_hello\<lparr>content := ''Bye'',
               metadata := Some [''a'' \<mapsto> JNum 1, ''b'' \<mapsto> JNum 2]\<rparr>)"
proof -
  let ?m = "stored_hello\<lparr>content := ''Bye'',
                  metadata := Some [''a'' \<mapsto> JNum 1, ''b'' \<mapsto> JNum 2]\<rparr>"
  have run: "fst (updateMessage env_healthy ''m-1'' edit_dto world_one) = Inr (Some ?m)"
    by (simp add: updateMessage_def io_defs svc_defs toDatabase_id fromDatabase_id
          env_healthy_def world_one_def stored_hello_def edit_dto_def applyUpdate_def
          updateContent_def updateMetadata_def spread_def)
  then have "updateMessage env_healthy ''m-1'' edit_dto world_one =
      (Inr (Some ?m), snd (updateMessage env_healthy ''m-1'' edit_dto world_one))"
    by (simp add: prod_eq_iff)
  from update_keeps_identity[OF this] obtain t where
    t: "tenant_ctx env_healthy = Some t" and
    f: "find (\<lambda>x. msgId x = ''m-1'' \<and> tenantId x = t)
          (db (snd (updateMessage env_healthy ''m-1'' edit_dto world_one))) = Some ?m"
    by blast
  from t have "t = ''tenant-a''"
    by (simp add: env_healthy_def)
  with f run show ?thesis by blast
qed

text \<open>
  C10. When \<open>updateMessage\<close> is called with the empty string as content, the content
  update is skipped: the message returned and persisted keeps the content stored before,
  while metadata sent in the same request is merged in.
\<close>

theorem empty_content_is_skipped:
  assumes "updateMessage e i upd w = (Inr (Some m'), w')"
    and "upd_content upd = Some []"
  shows "\<exists>t d. tenant_ctx e = Some t
           \<and> find (\<lambda>x. msgId x = i \<and> tenantId x = t) (db w) = Some d
           \<and> find (\<lambda>x. msgId x = i \<and> tenantId x = t) (db w') = Some m'
           \<and> content m' = content d
           \<and> metadata m' =
               (case upd_metadata upd of
                  None \<Rightarrow> metadata d
                | Some N \<Rightarrow> Some (spread (metadata d) ++ N))"
proof -
  from updateMessage_success[OF assms(1)] obtain t d where
    t: "tenant_ctx e = Some t" and
    d: "find (\<lambda>x. msgId x = i \<and> tenantId x = t) (db w) = Some d" and
    m': "m' = applyUpdate upd d" and
    db': "db w' = updateOne (\<lambda>x. msgId x = i \<and> tenantId x = t) m' (db w)"
    by blast
  have "msgId d = i \<and> tenantId d = t"
    using find_Some_holds[OF d] .
  then have "msgId m' = i \<and> tenantId m' = t"
    by (simp add: m' applyUpdate_fixed)
  with d have "find (\<lambda>x. msgId x = i \<and> tenantId x = t) (db w') = Some m'"
    unfolding db' by (intro find_updateOne) auto
  moreover have "content m' = content d"
    using assms(2)
    by (simp add: m' applyUpdate_def updateMetadata_def split: option.splits)
  moreover have "metadata m' =
      (case upd_metadata upd of None \<Rightarrow> metadata d | Some N \<Rightarrow> Some (spread (metadata d) ++ N))"
    using assms(2)
    by (simp add: m' applyUpdate_def updateMetadata_def split: option.splits)
  ultimately show ?thesis
    using t d by blast
qed

theorem empty_content_is_skipped_witness:
  "upd_content blank_content_dto = Some []
   \<and> fst (updateMessage env_healthy ''m-1'' blank_content_dto world_one) =
       Inr (Some (stored_hello\<lparr>metadata := Some [''a'' \<mapsto> JNum 1, ''b'' \<mapsto> JNum 2]\<rparr>))
   \<and> find (\<lambda>x. msgId x = ''m-1'' \<and> tenantId x = ''tenant-a'')
         (db (snd (updateMessage env_healthy ''m-1'' blank_content_dto world_one))) =
       Some (stored_hello\<lparr>metadata := Some [''a'' \<mapsto> JNum 1, ''b'' \<mapsto> JNum 2]\<rparr>)
   \<and> content (stored_hello\<lparr>metadata := Some [''a'' \<mapsto> JNum 1, ''b'' \<mapsto> JNum 2]\<rparr>) =
       ''Hello''"
proof -
  let ?m = "stored_hello\<lparr>metadata := Some [''a'' \<mapsto> JNum 1, ''b'' \<mapsto> JNum 2]\<rparr>"
  have c: "upd_content blank_content_dto = Some []"
    by (simp add: blank_content_dto_def)
  have run: "fst (updateMessage env_healthy ''m-1'' blank_content_dto world_one) = Inr (Some ?m)"
    by (simp add: updateMessage_def io_defs svc_defs toDatabase_id fromDatabase_id
          env_healthy_def world_one_def stored_hello_def blank_content_dto_def applyUpdate_def
          updateContent_def updateMetadata_def spread_def)
  then have "updateMessage env_healthy ''m-1'' blank_content_dto world_one =
      (Inr (Some ?m), snd (updateMessage env_healthy ''m-1'' blank_content_dto world_one))"
    by (simp add: prod_eq_iff)
  from empty_content_is_skipped[OF this c] obtain t where
    t: "tenant_ctx env_healthy = Some t" and
    f: "find (\<lambda>x. msgId x = ''m-1'' \<and> tenantId x = t)
          (db (snd (updateMessage env_healthy ''m-1'' blank_content_dto world_one))) = Some ?m"
    by blast
  from t have "t = ''tenant-a''"
    by (simp add: env_healthy_def)
  moreover have "content ?m = ''Hello''"
    by (simp add: stored_hello_def)
  ultimately show ?thesis using f run c by blast
qed

subsection \<open>Event consumer\<close>

lemma tryCatch_logger_returns:
  "fst (tryCatch m (\<lambda>error. logger lvl msg) w) = Inr ()"
  by (auto simp: tryCatch_def logger_def split: prod.splits sum.splits)

lemma handleMessage_returns: "fst (handleMessage e message w) = Inr ()"
  by (cases "val message") (simp_all add: handleMessage_def tryCatch_logger_returns logger_def)

lemma eachMessage_returns: "fst (eachMessage e message w) = Inr ()"
  by (simp add: eachMessage_def tryCatch_logger_returns)

lemma run_returns: "fst (run e records w) = Inr ()"
proof (induction records arbitrary: w)
  case Nil
  show ?case by (simp add: return_def)
next
  case (Cons message rest)
  obtain w1 where "eachMessage e message w = (Inr (), w1)"
    using eachMessage_returns[of e message w] by (cases "eachMessage e message w") auto
  then show ?case
    using Cons.IH[of w1] by (simp add: andThen_def)
qed

lemmas es_defs = es_indexMessage_def es_updateMessage_def es_deleteMessage_def getProp_def

text \<open>
  C6. \<open>handleMessage\<close> never throws, so a run over any list of records reaches its end.
  A record without a value is dropped with a warning; a value that does not parse is
  dropped with an error line; an event of unknown type is skipped with a warning; a
  rejected index, update or delete call is logged (by the search service and by the
  handler) and the handler still returns.
\<close>

theorem consumer_never_throws:
  "fst (handleMessage e message w) = Inr ()
   \<and> fst (run e records w) = Inr ()
   \<and> (val message = None \<longrightarrow>
        handleMessage e message w =
          (Inr (), w\<lparr>logs := logs w @ [(Warn, ''Received message with empty value'')]\<rparr>))
   \<and> (val message = Some v \<and> JSON_parse e v = None \<longrightarrow>
        handleMessage e message w =
          (Inr (), w\<lparr>logs := logs w @ [(Error, ''Error processing message'')]\<rparr>))
   \<and> (val message = Some v \<and> JSON_parse e v = Some (JObj kvs)
        \<and> map_of kvs ''type'' \<noteq> Some (JStr ''message.created'')
        \<and> map_of kvs ''type'' \<noteq> Some (JStr ''message.updated'')
        \<and> map_of kvs ''type'' \<noteq> Some (JStr ''message.deleted'') \<longrightarrow>
        handleMessage e message w =
          (Inr (), w\<lparr>logs := logs w @ [(Warn, ''Unknown event type'')]\<rparr>))
   \<and> (val message = Some v \<and> JSON_parse e v = Some (JObj kvs)
        \<and> map_of kvs ''type'' = Some (JStr ''message.created'')
        \<and> map_of kvs ''payload'' = Some (JObj p)
        \<and> fails e (EsIndex (map_of p ''id'')
                     [(''id'', map_of p ''id''), (''conversationId'', map_of p ''conversationId''),
                      (''senderId'', map_of p ''senderId''), (''content'', map_of p ''content''),
                      (''timestamp'', map_of p ''timestamp''), (''tenantId'', map_of p ''tenantId''),
                      (''metadata'', map_of p ''metadata'')]) \<longrightarrow>
        snd (handleMessage e message w) =
          w\<lparr>calls := calls w @ [EsIndex (map_of p ''id'')
                     [(''id'', map_of p ''id''), (''conversationId'', map_of p ''conversationId''),
                      (''senderId'', map_of p ''senderId''), (''content'', map_of p ''content''),
                      (''timestamp'', map_of p ''timestamp''), (''tenantId'', map_of p ''tenantId''),
                      (''metadata'', map_of p ''metadata'')]],
            logs := logs w @ [(Error, ''Failed to index message''),
                              (Error, ''Error processing message'')]\<rparr>)
   \<and> (val message = Some v \<and> JSON_parse e v = Some (JObj kvs)
        \<and> map_of kvs ''type'' = Some (JStr ''message.updated'')
        \<and> map_of kvs ''payload'' = Some (JObj p)
        \<and> fails e (EsUpdate (map_of p ''id'') (Some (JObj p))) \<longrightarrow>
        snd (handleMessage e message w) =
          w\<lparr>calls := calls w @ [EsUpdate (map_of p ''id'') (Some (JObj p))],
            logs := logs w @ [(Error, ''Failed to update message''),
                              (Error, ''Error processing message'')]\<rparr>)
   \<and> (val message = Some v \<and> JSON_parse e v = Some (JObj kvs)
        \<and> map_of kvs ''type'' = Some (JStr ''message.deleted'')
        \<and> map_of kvs ''payload'' = Some (JObj p)
        \<and> fails e (EsDelete (map_of p ''id'')) \<longrightarrow>
        snd (handleMessage e message w) =
          w\<lparr>calls := calls w @ [EsDelete (map_of p ''id'')],
            logs := logs w @ [(Error, ''Failed to delete message''),
                              (Error, ''Error processing message'')]\<rparr>)"
proof (intro conjI impI)
  show "fst (handleMessage e message w) = Inr ()"
    by (rule handleMessage_returns)
  show "fst (run e records w) = Inr ()"
    by (rule run_returns)
qed (simp_all add: handleMessage_def io_defs es_defs)

theorem consumer_never_throws_witness:
  "handleMessage env_engine_down \<lparr>key = Some ''c-1'', val = None\<rparr> world_empty =
     (Inr (), world_empty\<lparr>logs := [(Warn, ''Received message with empty value'')]\<rparr>)
   \<and> handleMessage env_engine_down \<lparr>key = Some ''c-1'', val = Some ''{broken''\<rparr> world_empty =
     (Inr (), world_empty\<lparr>logs := [(Error, ''Error processing message'')]\<rparr>)
   \<and> handleMessage env_engine_down \<lparr>key = Some ''c-1'', val = Some archived_text\<rparr> world_empty =
     (Inr (), world_empty\<lparr>logs := [(Warn, ''Unknown event type'')]\<rparr>)
   \<and> logs (snd (handleMessage env_engine_down \<lparr>key = Some ''c-1'', val = Some created_text\<rparr>
                   world_empty)) =
       [(Error, ''Failed to index message''), (Error, ''Error processing message'')]
   \<and> fst (handleMessage env_engine_down \<lparr>key = Some ''c-1'', val = Some created_text\<rparr>
             world_empty) = Inr ()
   \<and> fst (run env_engine_down
             [\<lparr>key = None, val = Some ''null''\<rparr>, \<lparr>key = None, val = Some created_text\<rparr>,
              \<lparr>key = None, val = None\<rparr>] world_empty) = Inr ()"
  using consumer_never_throws [of env_engine_down "\<lparr>key = Some ''c-1'', val = None\<rparr>"
          world_empty "[]"]
    consumer_never_throws [of env_engine_down "\<lparr>key = Some ''c-1'', val = Some ''{broken''\<rparr>"
          world_empty "[]" "''{broken''"]
    consumer_never_throws [of env_engine_down "\<lparr>key = Some ''c-1'', val = Some archived_text\<rparr>"
          world_empty "[]" archived_text "[(''type'', JStr ''message.archived'')]"]
    consumer_never_throws [of env_engine_down "\<lparr>key = Some ''c-1'', val = Some created_text\<rparr>"
          world_empty
          "[\<lparr>key = None, val = Some ''null''\<rparr>, \<lparr>key = None, val = Some created_text\<rparr>,
              \<lparr>key = None, val = None\<rparr>]"
          created_text
          "[(''type'', JStr ''message.created''),
            (''payload'', JObj [(''id'', JStr ''m-1''), (''conversationId'', JStr ''c-1''),
                               (''content'', JStr ''Hello'')])]"
          "[(''id'', JStr ''m-1''), (''conversationId'', JStr ''c-1''),
                               (''content'', JStr ''Hello'')]"]
  by (simp add: env_engine_down_def world_empty_def created_event_def created_text_def
        archived_text_def quoted_def)

subsection \<open>Search pagination\<close>

lemma insort_by_replicate: "le x x \<Longrightarrow> insort_by le x (replicate n x) = x # replicate n x"
  by (cases n) simp_all

lemma sort_by_replicate: "le x x \<Longrightarrow> sort_by le (replicate n x) = replicate n x"
  by (induction n) (simp_all add: sort_by_def insort_by_replicate)

lemma es_searchMessages_calls:
  "calls (snd (es_searchMessages e conv tenant searchTerm opts w)) =
     calls w @ [EsSearch \<lparr>req_index = ''messages'', term_conversationId = conv,
                          term_tenantId = tenant, multi_match_query = searchTerm,
                          req_from = (page opts - 1) * limit opts, req_size = limit opts\<rparr>]"
  by (simp add: es_searchMessages_def io_defs)

lemma es_searchMessages_pages:
  assumes "es_searchMessages e conv tenant searchTerm opts w = (Inr r, w')"
  shows "totalPages (pagination r) = ceilDiv (totalItems (pagination r)) (limit opts)
         \<and> meta_page (pagination r) = page opts \<and> meta_limit (pagination r) = limit opts"
  using assms by (auto simp: es_searchMessages_def io_defs split: if_splits)

text \<open>
  C8. The search request carries \<open>from = (page - 1) * limit\<close>, and with a page and a
  limit of at least 1 a successful search returns an envelope with
  \<open>totalPages = \<lceil>totalItems / limit\<rceil>\<close>: 5 pages for 42 items at limit 10, and 0 pages
  for 0 items.
\<close>

theorem search_offset_and_total_pages:
  "calls (snd (es_searchMessages e conv tenant searchTerm opts w)) =
     calls w @ [EsSearch \<lparr>req_index = ''messages'', term_conversationId = conv,
                          term_tenantId = tenant, multi_match_query = searchTerm,
                          req_from = (page opts - 1) * limit opts, req_size = limit opts\<rparr>]
   \<and> (1 \<le> page opts \<and> 1 \<le> limit opts
        \<and> es_searchMessages e conv tenant searchTerm opts w = (Inr r, w') \<longrightarrow>
        totalPages (pagination r) =
          Num \<lceil>real_of_int (totalItems (pagination r)) / real_of_int (limit opts)\<rceil>
        \<and> (totalItems (pagination r) = 42 \<and> limit opts = 10 \<longrightarrow>
             totalPages (pagination r) = Num 5)
        \<and> (totalItems (pagination r) = 0 \<longrightarrow> totalPages (pagination r) = Num 0))"
proof (intro conjI impI)
  show "calls (snd (es_searchMessages e conv tenant searchTerm opts w)) =
     calls w @ [EsSearch \<lparr>req_index = ''messages'', term_conversationId = conv,
                          term_tenantId = tenant, multi_match_query = searchTerm,
                          req_from = (page opts - 1) * limit opts, req_size = limit opts\<rparr>]"
    by (rule es_searchMessages_calls)
next
  assume h: "1 \<le> page opts \<and> 1 \<le> limit opts
        \<and> es_searchMessages e conv tenant searchTerm opts w = (Inr r, w')"
  then have p: "totalPages (pagination r) = ceilDiv (totalItems (pagination r)) (limit opts)"
    using es_searchMessages_pages by blast
  from h p show "totalPages (pagination r) =
          Num \<lceil>real_of_int (totalItems (pagination r)) / real_of_int (limit opts)\<rceil>"
    by (simp add: ceilDiv_def)
  {
    assume "totalItems (pagination r) = 42 \<and> limit opts = 10"
    with p show "totalPages (pagination r) = Num 5"
      by (simp add: ceilDiv_def)
  }
  {
    assume "totalItems (pagination r) = 0"
    with h p show "totalPages (pagination r) = Num 0"
      by (simp add: ceilDiv_def)
  }
qed

theorem search_offset_and_total_pages_witness:
  "fst (es_searchMessages env_healthy ''c-1'' ''tenant-a'' ''hello'' first_page world_42) =
     Inr \<lparr>data = replicate 10 stored_hello,
          pagination = \<lparr>meta_page = 1, meta_limit = 10, totalItems = 42, totalPages = Num 5\<rparr>\<rparr>
   \<and> totalPages (pagination \<lparr>data = replicate 10 stored_hello,
          pagination = \<lparr>meta_page = 1, meta_limit = 10, totalItems = 42,
                         totalPages = Num 5\<rparr>\<rparr>) = Num \<lceil>(42::real) / 10\<rceil>
   \<and> fst (es_searchMessages env_healthy ''c-1'' ''tenant-a'' ''hello'' first_page world_empty) =
     Inr \<lparr>data = [],
          pagination = \<lparr>meta_page = 1, meta_limit = 10, totalItems = 0, totalPages = Num 0\<rparr>\<rparr>"
proof -
  let ?r = "\<lparr>data = replicate 10 stored_hello,
          pagination = \<lparr>meta_page = 1, meta_limit = 10, totalItems = 42, totalPages = Num 5\<rparr>\<rparr>"
  have run: "fst (es_searchMessages env_healthy ''c-1'' ''tenant-a'' ''hello'' first_page world_42)
      = Inr ?r"
    by (simp add: es_searchMessages_def io_defs engine_search_def env_healthy_def world_42_def
          first_page_def stored_hello_def sort_by_replicate ceilDiv_def fromDatabase_id)
  have run0: "fst (es_searchMessages env_healthy ''c-1'' ''tenant-a'' ''hello'' first_page world_empty)
      = Inr \<lparr>data = [],
          pagination = \<lparr>meta_page = 1, meta_limit = 10, totalItems = 0, totalPages = Num 0\<rparr>\<rparr>"
    by (simp add: es_searchMessages_def io_defs engine_search_def env_healthy_def world_empty_def
          first_page_def sort_by_def ceilDiv_def)
  from run have "es_searchMessages env_healthy ''c-1'' ''tenant-a'' ''hello'' first_page world_42 =
      (Inr ?r, snd (es_searchMessages env_healthy ''c-1'' ''tenant-a'' ''hello'' first_page world_42))"
    by (simp add: prod_eq_iff)
  moreover have "1 \<le> page first_page \<and> 1 \<le> limit first_page"
    by (simp add: first_page_def)
  ultimately have "totalPages (pagination ?r) =
      Num \<lceil>real_of_int (totalItems (pagination ?r)) / real_of_int (limit first_page)\<rceil>"
    using search_offset_and_total_pages [of env_healthy "''c-1''" "''tenant-a''" "''hello''"
            first_page world_42 ?r]
    by blast
  then have "totalPages (pagination ?r) = Num \<lceil>(42::real) / 10\<rceil>"
    by (simp add: first_page_def)
  with run run0 show ?thesis by blast
qed

subsection \<open>Correction of page and limit\<close>

lemma andThen_Inr: "m w = (Inr x, w1) \<Longrightarrow> andThen m f w = f x w1"
  by (simp add: andThen_def)

lemma getCurrentTenant_ok:
  "tenant_ctx e = Some t \<Longrightarrow> t \<noteq> [] \<Longrightarrow> getCurrentTenant e w = (Inr t, w)"
  by (simp add: getCurrentTenant_def return_def)

lemma validateOptions_eq:
  "validateOptions opts w =
     (Inr (corrected opts), w\<lparr>logs := logs w @ validationWarnings opts\<rparr>)"
  by (simp add: validateOptions_def corrected_def validationWarnings_def io_defs)

lemma corrected_twice: "corrected (corrected opts) = corrected opts"
  by (simp add: corrected_def)

lemma no_warnings_corrected: "validationWarnings (corrected opts) = []"
  by (simp add: corrected_def validationWarnings_def)

lemma validateOptions_corrected: "validateOptions (corrected opts) w = (Inr (corrected opts), w)"
  by (simp add: validateOptions_eq corrected_twice no_warnings_corrected)

lemma getMessagesByConversation_corrected:
  assumes "tenant_ctx e = Some t" and "t \<noteq> []"
  shows "getMessagesByConversation e conv opts w =
         getMessagesByConversation e conv (corrected opts)
           (w\<lparr>logs := logs w @ validationWarnings opts\<rparr>)"
  by (simp add: getMessagesByConversation_def
        andThen_Inr[where m = "getCurrentTenant e", OF getCurrentTenant_ok[OF assms]]
        andThen_Inr[where m = "validateOptions opts", OF validateOptions_eq]
        andThen_Inr[where m = "validateOptions (corrected opts)", OF validateOptions_corrected])

lemma searchMessages_corrected:
  assumes "tenant_ctx e = Some t" and "t \<noteq> []"
  shows "searchMessages e conv searchTerm opts w =
         searchMessages e conv searchTerm (corrected opts)
           (w\<lparr>logs := logs w @ validationWarnings opts\<rparr>)"
  by (simp add: searchMessages_def
        andThen_Inr[where m = "getCurrentTenant e", OF getCurrentTenant_ok[OF assms]]
        andThen_Inr[where m = "validateOptions opts", OF validateOptions_eq]
        andThen_Inr[where m = "validateOptions (corrected opts)", OF validateOptions_corrected])

lemma findByConversationId_ok:
  assumes "\<And>c. \<not> fails e c"
  shows "\<exists>r w'. findByConversationId e conv t opts w = (Inr r, w')"
  by (simp add: findByConversationId_def Let_def tryCatch_def andThen_def perform_def
        return_def assms)

lemma es_searchMessages_ok:
  assumes "\<And>c. \<not> fails e c"
  shows "\<exists>r w'. es_searchMessages e conv t q opts w = (Inr r, w')"
  by (simp add: es_searchMessages_def Let_def tryCatch_def andThen_def perform_def
        return_def assms)

lemma cache_read_total:
  "\<exists>c w'. tryCatch (cacheGet e k)
             (\<lambda>error. andThen (logger lvl msg) (\<lambda>_. return None)) w = (Inr c, w')"
  by (simp add: cacheGet_def io_defs)

lemma andThen_soft:
  "\<exists>w'. andThen (tryCatch m (\<lambda>error. logger lvl msg)) f w = f () w'"
  by (cases "m w"; cases "fst (m w)") (auto simp: andThen_def tryCatch_def logger_def)

lemma getMessagesByConversation_succeeds:
  assumes "tenant_ctx e = Some t" and "t \<noteq> []" and "\<And>c. \<not> fails e c"
  shows "\<exists>r. fst (getMessagesByConversation e conv opts w) = Inr r"
proof -
  define k where "k = getConversationMessagesCacheKey conv t (page (corrected opts))
      (limit (corrected opts)) (map_option fst (sort_opt (corrected opts)))
      (map_option snd (sort_opt (corrected opts)))"
  define w0 where "w0 = w\<lparr>logs := logs w @ validationWarnings opts\<rparr>"
  obtain c w1 where c: "tryCatch (cacheGet e k)
       (\<lambda>error. andThen (logger Warn ''Cache read error'') (\<lambda>_. return None)) w0 = (Inr c, w1)"
    using cache_read_total by blast
  have step: "getMessagesByConversation e conv opts w =
      (case c of
         Some v \<Rightarrow> return v
       | None \<Rightarrow>
           andThen (findByConversationId e conv t (corrected opts)) (\<lambda>result.
             andThen
               (tryCatch
                  (cacheSet e k (CachedPage result) (CONVERSATION_MESSAGES_CACHE_TTL * 1000))
                  (\<lambda>error. logger Warn ''Cache write error''))
               (\<lambda>_. return (CachedPage result)))) w1"
    unfolding k_def w0_def[symmetric]
    by (simp only: getMessagesByConversation_def Let_def
          andThen_Inr[where m = "getCurrentTenant e", OF getCurrentTenant_ok[OF assms(1,2)]]
          andThen_Inr[where m = "validateOptions opts", OF validateOptions_eq])
       (simp add: andThen_def c[unfolded k_def w0_def])
  show ?thesis
  proof (cases c)
    case (Some v)
    then show ?thesis by (simp add: step return_def)
  next
    case None
    obtain r w2 where r: "findByConversationId e conv t (corrected opts) w1 = (Inr r, w2)"
      using findByConversationId_ok[OF assms(3)] by blast
    obtain w3 where "andThen
               (tryCatch
                  (cacheSet e k (CachedPage r) (CONVERSATION_MESSAGES_CACHE_TTL * 1000))
                  (\<lambda>error. logger Warn ''Cache write error''))
               (\<lambda>_. return (CachedPage r)) w2 = return (CachedPage r) w3"
      using andThen_soft by blast
    then show ?thesis
      by (simp add: step None andThen_def[of "findByConversationId e conv t (corrected opts)"] r return_def)
  qed
qed

lemma searchMessages_succeeds:
  assumes "tenant_ctx e = Some t" and "t \<noteq> []" and "\<And>c. \<not> fails e c"
  shows "\<exists>r. fst (searchMessages e conv searchTerm opts w) = Inr r"
proof -
  define k where "k = getSearchCacheKey conv t searchTerm (page (corrected opts))
      (limit (corrected opts))"
  define w0 where "w0 = w\<lparr>logs := logs w @ validationWarnings opts\<rparr>"
  obtain c w1 where c: "tryCatch (cacheGet e k)
       (\<lambda>error. andThen (logger Warn ''Cache read error'') (\<lambda>_. return None)) w0 = (Inr c, w1)"
    using cache_read_total by blast
  have step: "searchMessages e conv searchTerm opts w =
      (case c of
         Some v \<Rightarrow> return v
       | None \<Rightarrow>
           andThen (es_searchMessages e conv t searchTerm (corrected opts)) (\<lambda>result.
             andThen
               (tryCatch
                  (cacheSet e k (CachedSearch result) (SEARCH_CACHE_TTL * 1000))
                  (\<lambda>error. logger Warn ''Cache write error''))
               (\<lambda>_. return (CachedSearch result)))) w1"
    unfolding k_def w0_def[symmetric]
    by (simp only: searchMessages_def Let_def
          andThen_Inr[where m = "getCurrentTenant e", OF getCurrentTenant_ok[OF assms(1,2)]]
          andThen_Inr[where m = "validateOptions opts", OF validateOptions_eq])
       (simp add: andThen_def c[unfolded k_def w0_def])
  show ?thesis
  proof (cases c)
    case (Some v)
    then show ?thesis by (simp add: step return_def)
  next
    case None
    obtain r w2 where r: "es_searchMessages e conv t searchTerm (corrected opts) w1 = (Inr r, w2)"
      using es_searchMessages_ok[OF assms(3)] by blast
    obtain w3 where "andThen
               (tryCatch
                  (cacheSet e k (CachedSearch r) (SEARCH_CACHE_TTL * 1000))
                  (\<lambda>error. logger Warn ''Cache write error''))
               (\<lambda>_. return (CachedSearch r)) w2 = return (CachedSearch r) w3"
      using andThen_soft by blast
    then show ?thesis
      by (simp add: step None
            andThen_def[of "es_searchMessages e conv t searchTerm (corrected opts)"] r return_def)
  qed
qed


text \<open>
  C9. In \<open>getMessagesByConversation\<close> and \<open>searchMessages\<close> the validation makes no
  call and throws nothing; it replaces a page of at most 0 by 1 and a limit of at most 0
  by 10, and everything after it (cache, store and index calls) runs as for the replaced
  values. With a tenant set and no collaborator rejecting a call, the read succeeds.
\<close>

theorem nonpositive_pagination_corrected:
  assumes "tenant_ctx e = Some t" and "t \<noteq> []"
  shows "validateOptions opts w =
           (Inr (corrected opts), w\<lparr>logs := logs w @ validationWarnings opts\<rparr>)
       \<and> (page opts \<le> 0 \<longrightarrow> page (corrected opts) = 1)
       \<and> (limit opts \<le> 0 \<longrightarrow> limit (corrected opts) = 10)
       \<and> getMessagesByConversation e conv opts w =
           getMessagesByConversation e conv (corrected opts)
             (w\<lparr>logs := logs w @ validationWarnings opts\<rparr>)
       \<and> searchMessages e conv searchTerm opts w =
           searchMessages e conv searchTerm (corrected opts)
             (w\<lparr>logs := logs w @ validationWarnings opts\<rparr>)
       \<and> ((\<forall>c. \<not> fails e c) \<longrightarrow>
            (\<exists>r. fst (getMessagesByConversation e conv opts w) = Inr r)
            \<and> (\<exists>r. fst (searchMessages e conv searchTerm opts w) = Inr r))"
proof (intro conjI impI)
  show "validateOptions opts w =
           (Inr (corrected opts), w\<lparr>logs := logs w @ validationWarnings opts\<rparr>)"
    by (rule validateOptions_eq)
  show "getMessagesByConversation e conv opts w =
           getMessagesByConversation e conv (corrected opts)
             (w\<lparr>logs := logs w @ validationWarnings opts\<rparr>)"
    by (rule getMessagesByConversation_corrected[OF assms])
  show "searchMessages e conv searchTerm opts w =
           searchMessages e conv searchTerm (corrected opts)
             (w\<lparr>logs := logs w @ validationWarnings opts\<rparr>)"
    by (rule searchMessages_corrected[OF assms])
next
  assume "\<forall>c. \<not> fails e c"
  then show "\<exists>r. fst (getMessagesByConversation e conv opts w) = Inr r"
    using getMessagesByConversation_succeeds[OF assms] by blast
next
  assume "\<forall>c. \<not> fails e c"
  then show "\<exists>r. fst (searchMessages e conv searchTerm opts w) = Inr r"
    using searchMessages_succeeds[OF assms] by blast
qed (simp_all add: corrected_def)

lemma ceilDiv_div: "b \<noteq> 0 \<Longrightarrow> ceilDiv a b = Num (- (- a div b))"
  by (simp add: ceilDiv_def ceiling_divide_eq_div)

lemma first_page_key:
  "getConversationMessagesCacheKey ''c-1'' ''tenant-a'' 1 10 None None =
     ''conversation-messages:tenant-a:c-1:1:10:timestamp:desc''"
  by code_simp

lemma first_page_search_key:
  "getSearchCacheKey ''c-1'' ''tenant-a'' ''hello'' 1 10 =
     ''search:messages:tenant-a:c-1:hello:1:10''"
  by code_simp

theorem nonpositive_pagination_corrected_witness:
  "page negative_options \<le> 0 \<and> limit negative_options \<le> 0
   \<and> corrected negative_options = first_page
   \<and> fst (getMessagesByConversation env_healthy ''c-1'' negative_options world_one) =
       Inr (CachedPage \<lparr>messages = [stored_hello], total = 1\<rparr>)
   \<and> calls (snd (getMessagesByConversation env_healthy ''c-1'' negative_options world_one)) =
       [CacheGet ''conversation-messages:tenant-a:c-1:1:10:timestamp:desc'',
        DbFind ''c-1'' ''tenant-a'' ''timestamp'' (- 1) 0 10,
        DbCountDocuments ''c-1'' ''tenant-a'',
        CacheSet ''conversation-messages:tenant-a:c-1:1:10:timestamp:desc''
          (CachedPage \<lparr>messages = [stored_hello], total = 1\<rparr>) 300000]
   \<and> calls (snd (searchMessages env_healthy ''c-1'' ''hello'' negative_options world_one)) =
       [CacheGet ''search:messages:tenant-a:c-1:hello:1:10'',
        EsSearch \<lparr>req_index = ''messages'', term_conversationId = ''c-1'',
                  term_tenantId = ''tenant-a'', multi_match_query = ''hello'',
                  req_from = 0, req_size = 10\<rparr>,
        CacheSet ''search:messages:tenant-a:c-1:hello:1:10''
          (CachedSearch \<lparr>data = [stored_hello],
             pagination = \<lparr>meta_page = 1, meta_limit = 10, totalItems = 1,
                            totalPages = Num 1\<rparr>\<rparr>) 300000]"
proof -
  have t: "tenant_ctx env_healthy = Some ''tenant-a''" "''tenant-a'' \<noteq> []"
    by (simp_all add: env_healthy_def)
  have c: "corrected negative_options = first_page"
    by (simp add: corrected_def negative_options_def first_page_def)
  have w: "validationWarnings negative_options =
             [(Warn, ''Invalid page number, using default page 1''),
              (Warn, ''Invalid limit, using default limit 10'')]"
    by (simp add: validationWarnings_def negative_options_def)
  note inst = nonpositive_pagination_corrected [OF t, of negative_options world_one "''c-1''"
      "''hello''", unfolded c w]
  have g: "getMessagesByConversation env_healthy ''c-1'' negative_options world_one =
        getMessagesByConversation env_healthy ''c-1'' first_page
          (world_one\<lparr>logs := logs world_one @
             [(Warn, ''Invalid page number, using default page 1''),
              (Warn, ''Invalid limit, using default limit 10'')]\<rparr>)"
    using inst by blast
  have s: "searchMessages env_healthy ''c-1'' ''hello'' negative_options world_one =
        searchMessages env_healthy ''c-1'' ''hello'' first_page
          (world_one\<lparr>logs := logs world_one @
             [(Warn, ''Invalid page number, using default page 1''),
              (Warn, ''Invalid limit, using default limit 10'')]\<rparr>)"
    using inst by blast
  show ?thesis
    unfolding g s c
    by (simp add: getMessagesByConversation_def searchMessages_def validateOptions_def
          findByConversationId_def es_searchMessages_def engine_search_def
          io_defs svc_defs first_page_def negative_options_def first_page_key
          first_page_search_key env_healthy_def world_one_def stored_hello_def
          sortDocs_def sort_by_def field_le_def fromDatabase_id ceilDiv_div
          CONVERSATION_MESSAGES_CACHE_TTL_def SEARCH_CACHE_TTL_def)
qed

subsection \<open>Tenant isolation\<close>











subsection \<open>Cache keys are told apart\<close>

declare string_of_nat.simps [simp del]

lemma digit_cases:
  "d < 10 \<Longrightarrow> d = 0 \<or> d = 1 \<or> d = 2 \<or> d = 3 \<or> d = 4 \<or> d = 5 \<or> d = 6 \<or> d = 7 \<or> d = 8
     \<or> d = (9::nat)"
  by arith

lemma digit_char_props:
  assumes "d < 10"
  shows "digit_val (digit_char d) = d" and "digit_char d \<noteq> CHR '':''"
    and "digit_char d \<noteq> CHR ''-''"
  using digit_cases[OF assms] by (auto simp: digit_char_def digit_val_def)

lemma nat_of_digits_snoc: "nat_of_digits (cs @ [c]) = 10 * nat_of_digits cs + digit_val c"
  by (simp add: nat_of_digits_def)

lemma nat_of_digits_string_of_nat: "nat_of_digits (string_of_nat n) = n"
proof (induction n rule: string_of_nat.induct)
  case (1 n)
  show ?case
  proof (cases "n < 10")
    case True
    then have "string_of_nat n = [digit_char n]"
      by (subst string_of_nat.simps) simp
    with True show ?thesis
      by (simp add: nat_of_digits_def digit_char_props)
  next
    case False
    then have s: "string_of_nat n = string_of_nat (n div 10) @ [digit_char (n mod 10)]"
      by (subst string_of_nat.simps) simp
    from False 1 have "nat_of_digits (string_of_nat (n div 10)) = n div 10"
      by simp
    then show ?thesis
      unfolding s nat_of_digits_snoc by (simp add: digit_char_props)
  qed
qed

lemma string_of_nat_chars:
  "c \<in> set (string_of_nat n) \<Longrightarrow> c \<noteq> CHR '':'' \<and> c \<noteq> CHR ''-''"
proof (induction n rule: string_of_nat.induct)
  case (1 n)
  show ?case
  proof (cases "n < 10")
    case True
    then have "string_of_nat n = [digit_char n]"
      by (subst string_of_nat.simps) simp
    with True "1.prems" show ?thesis
      by (auto simp: digit_char_props)
  next
    case False
    then have s: "string_of_nat n = string_of_nat (n div 10) @ [digit_char (n mod 10)]"
      by (subst string_of_nat.simps) simp
    have "n mod 10 < 10" by simp
    with "1.prems" "1.IH"[OF False] show ?thesis
      unfolding s by (auto simp: digit_char_props)
  qed
qed

lemma string_of_nat_inj: "string_of_nat a = string_of_nat b \<Longrightarrow> a = b"
  by (metis nat_of_digits_string_of_nat)

lemma string_of_int_inj:
  assumes "string_of_int a = string_of_int b"
  shows "a = b"
proof -
  have neg: "string_of_nat n \<noteq> CHR ''-'' # cs" for n cs
    using string_of_nat_chars[of "CHR ''-''" n] by (cases "string_of_nat n") auto
  show ?thesis
  proof (cases "a < 0")
    case True
    show ?thesis
    proof (cases "b < 0")
      case True
      with \<open>a < 0\<close> assms have "nat (- a) = nat (- b)"
        by (simp add: string_of_int_def string_of_nat_inj)
      with True \<open>a < 0\<close> show ?thesis by simp
    next
      case False
      with True assms neg[of "nat b" "string_of_nat (nat (- a))"] show ?thesis
        by (simp add: string_of_int_def)
    qed
  next
    case False
    show ?thesis
    proof (cases "b < 0")
      case True
      with False assms neg[of "nat a" "string_of_nat (nat (- b))"] show ?thesis
        by (simp add: string_of_int_def)
    next
      case b: False
      with False assms have "nat a = nat b"
        by (simp add: string_of_int_def string_of_nat_inj)
      with False b show ?thesis by simp
    qed
  qed
qed

lemma string_of_int_no_colon: "CHR '':'' \<notin> set (string_of_int i)"
  using string_of_nat_chars[of "CHR '':''"] by (auto simp: string_of_int_def)

lemma split_at_sep:
  "c \<notin> set a \<Longrightarrow> c \<notin> set a' \<Longrightarrow> a @ c # r = a' @ c # r' \<Longrightarrow> a = a' \<and> r = r'"
proof (induction a arbitrary: a')
  case Nil
  then show ?case by (cases a') auto
next
  case (Cons x a)
  then show ?case by (cases a') auto
qed

lemma direction_no_colon: "CHR '':'' \<notin> set (sortDirectionOrDefault sd)"
  by (cases sd; cases "the sd") (simp_all add: sortDirectionOrDefault_def)

lemma split_direction:
  assumes "f @ CHR '':'' # sortDirectionOrDefault sd = f' @ CHR '':'' # sortDirectionOrDefault sd'"
  shows "f = f' \<and> sortDirectionOrDefault sd = sortDirectionOrDefault sd'"
proof -
  from assms have "rev (f @ CHR '':'' # sortDirectionOrDefault sd) =
      rev (f' @ CHR '':'' # sortDirectionOrDefault sd')"
    by simp
  then have "rev (sortDirectionOrDefault sd) @ CHR '':'' # rev f =
      rev (sortDirectionOrDefault sd') @ CHR '':'' # rev f'"
    by simp
  from split_at_sep[OF _ _ this] have
    "rev (sortDirectionOrDefault sd) = rev (sortDirectionOrDefault sd') \<and> rev f = rev f'"
    using direction_no_colon by simp
  then show ?thesis by simp
qed

lemma conversation_key_inj:
  assumes "getConversationMessagesCacheKey conv t p l sf sd =
           getConversationMessagesCacheKey conv t p' l' sf' sd'"
  shows "p = p' \<and> l = l' \<and> sortFieldOrDefault sf = sortFieldOrDefault sf'
         \<and> sortDirectionOrDefault sd = sortDirectionOrDefault sd'"
proof -
  from assms have 1: "string_of_int p @ CHR '':'' # (string_of_int l @ CHR '':'' #
        (sortFieldOrDefault sf @ CHR '':'' # sortDirectionOrDefault sd)) =
      string_of_int p' @ CHR '':'' # (string_of_int l' @ CHR '':'' #
        (sortFieldOrDefault sf' @ CHR '':'' # sortDirectionOrDefault sd'))"
    by (simp add: getConversationMessagesCacheKey_def)
  from split_at_sep[OF string_of_int_no_colon string_of_int_no_colon 1] have
    p: "string_of_int p = string_of_int p'" and
    2: "string_of_int l @ CHR '':'' # (sortFieldOrDefault sf @ CHR '':'' # sortDirectionOrDefault sd) =
        string_of_int l' @ CHR '':'' # (sortFieldOrDefault sf' @ CHR '':'' # sortDirectionOrDefault sd')"
    by simp_all
  from split_at_sep[OF string_of_int_no_colon string_of_int_no_colon 2] have
    l: "string_of_int l = string_of_int l'" and
    3: "sortFieldOrDefault sf @ CHR '':'' # sortDirectionOrDefault sd =
        sortFieldOrDefault sf' @ CHR '':'' # sortDirectionOrDefault sd'"
    by simp_all
  from p l split_direction[OF 3] show ?thesis
    by (simp add: string_of_int_inj)
qed

lemma message_key_not_conversation_key:
  "getMessageCacheKey i t \<noteq> getConversationMessagesCacheKey conv t' p l sf sd"
  by (simp add: getMessageCacheKey_def getConversationMessagesCacheKey_def)

subsection \<open>Targeted invalidation\<close>

lemma deletedKeys_append: "deletedKeys (xs @ ys) = deletedKeys xs @ deletedKeys ys"
  by (induction xs rule: deletedKeys.induct) simp_all

lemma createMessage_frame:
  assumes "tenant_ctx e = Some t"
  shows "set (deletedKeys (calls (snd (createMessage e dto w)))) \<subseteq>
           set (deletedKeys (calls w))
           \<union> {getConversationMessagesCacheKey (dto_conversationId dto) t 1 10 None None}"
    and "k \<noteq> getMessageCacheKey (uuidv4 e) t \<Longrightarrow>
         k \<noteq> getConversationMessagesCacheKey (dto_conversationId dto) t 1 10 None None \<Longrightarrow>
         cache (snd (createMessage e dto w)) k = cache w k"
  using assms
  by (auto simp: createMessage_def io_defs svc_defs deletedKeys_append create_def)

lemma updateMessage_frame:
  assumes "tenant_ctx e = Some t"
    and "find (\<lambda>x. msgId x = i \<and> tenantId x = t) (db w) = Some d"
  shows "set (deletedKeys (calls (snd (updateMessage e i upd w)))) \<subseteq>
           set (deletedKeys (calls w))
           \<union> {getMessageCacheKey i t,
              getConversationMessagesCacheKey (conversationId d) t 1 10 None None}"
    and "k \<noteq> getMessageCacheKey i t \<Longrightarrow>
         k \<noteq> getConversationMessagesCacheKey (conversationId d) t 1 10 None None \<Longrightarrow>
         cache (snd (updateMessage e i upd w)) k = cache w k"
  using assms
  by (auto simp: updateMessage_def io_defs svc_defs deletedKeys_append applyUpdate_fixed
        fromDatabase_id)

lemma deleteMessage_frame:
  assumes "tenant_ctx e = Some t"
    and "find (\<lambda>x. msgId x = i \<and> tenantId x = t) (db w) = Some d"
  shows "set (deletedKeys (calls (snd (deleteMessage e i w)))) \<subseteq>
           set (deletedKeys (calls w))
           \<union> {getMessageCacheKey i t,
              getConversationMessagesCacheKey (conversationId d) t 1 10 None None}"
    and "k \<noteq> getMessageCacheKey i t \<Longrightarrow>
         k \<noteq> getConversationMessagesCacheKey (conversationId d) t 1 10 None None \<Longrightarrow>
         cache (snd (deleteMessage e i w)) k = cache w k"
  using assms
  by (auto simp: deleteMessage_def io_defs svc_defs deletedKeys_append fromDatabase_id)

text \<open>
  C3. A mutation (a \<open>createMessage\<close>, or an \<open>updateMessage\<close> or \<open>deleteMessage\<close> that
  finds its message) passes to the cache's delete no key other than the single-message key
  \<open>message:{tenant}:{id}\<close> and the conversation key for page 1, limit 10 and the default
  sort; every other cache entry is left as it was, in particular the pages of the same
  conversation for any other page, limit or sort.
\<close>

theorem invalidation_is_targeted:
  assumes "tenant_ctx e = Some t"
    and "(w' = snd (createMessage e dto w) \<and> i = uuidv4 e \<and> conv = dto_conversationId dto)
         \<or> (find (\<lambda>x. msgId x = i \<and> tenantId x = t) (db w) = Some d \<and> conv = conversationId d
            \<and> (w' = snd (updateMessage e i upd w) \<or> w' = snd (deleteMessage e i w)))"
  shows "set (deletedKeys (calls w')) \<subseteq>
           set (deletedKeys (calls w))
           \<union> {getMessageCacheKey i t, getConversationMessagesCacheKey conv t 1 10 None None}
       \<and> (\<forall>k. k \<noteq> getMessageCacheKey i t
               \<and> k \<noteq> getConversationMessagesCacheKey conv t 1 10 None None
             \<longrightarrow> cache w' k = cache w k)
       \<and> (\<forall>p l sf sd.
            (p, l, sortFieldOrDefault sf, sortDirectionOrDefault sd) \<noteq> (1, 10, ''timestamp'', ''desc'')
             \<longrightarrow> cache w' (getConversationMessagesCacheKey conv t p l sf sd) =
                  cache w (getConversationMessagesCacheKey conv t p l sf sd))"
proof -
  let ?mk = "getMessageCacheKey i t"
  let ?ck = "getConversationMessagesCacheKey conv t 1 10 None None"
  have del: "set (deletedKeys (calls w')) \<subseteq> set (deletedKeys (calls w)) \<union> {?mk, ?ck}"
    using assms(2) createMessage_frame(1)[OF assms(1), of dto w]
      updateMessage_frame(1)[OF assms(1), of i w d upd]
      deleteMessage_frame(1)[OF assms(1), of i w d]
    by auto
  have frame: "cache w' k = cache w k" if "k \<noteq> ?mk" "k \<noteq> ?ck" for k
    using assms(2) that createMessage_frame(2)[OF assms(1), of k dto w]
      updateMessage_frame(2)[OF assms(1), of i w d k upd]
      deleteMessage_frame(2)[OF assms(1), of i w d k]
    by auto
  have pages: "cache w' (getConversationMessagesCacheKey conv t p l sf sd) =
      cache w (getConversationMessagesCacheKey conv t p l sf sd)"
    if "(p, l, sortFieldOrDefault sf, sortDirectionOrDefault sd) \<noteq> (1, 10, ''timestamp'', ''desc'')"
    for p l sf sd
  proof (rule frame)
    show "getConversationMessagesCacheKey conv t p l sf sd \<noteq> ?mk"
      using message_key_not_conversation_key[of i t conv t p l sf sd] by simp
    show "getConversationMessagesCacheKey conv t p l sf sd \<noteq> ?ck"
    proof
      assume "getConversationMessagesCacheKey conv t p l sf sd = ?ck"
      from conversation_key_inj[OF this] that show False
        by (simp add: sortFieldOrDefault_def sortDirectionOrDefault_def)
    qed
  qed
  from del frame pages show ?thesis by blast
qed

lemma hello_key: "getMessageCacheKey ''m-1'' ''tenant-a'' = ''message:tenant-a:m-1''"
  by code_simp

lemma new_key: "getMessageCacheKey ''m-2'' ''tenant-a'' = ''message:tenant-a:m-2''"
  by code_simp

lemma second_page_key:
  "getConversationMessagesCacheKey ''c-1'' ''tenant-a'' 2 10 None None =
     ''conversation-messages:tenant-a:c-1:2:10:timestamp:desc''"
  by code_simp

lemma wide_page_key:
  "getConversationMessagesCacheKey ''c-1'' ''tenant-a'' 1 20 (Some ''timestamp'') (Some Desc) =
     ''conversation-messages:tenant-a:c-1:1:20:timestamp:desc''"
  by code_simp

theorem invalidation_is_targeted_witness:
  "deletedKeys (calls (snd (createMessage env_healthy hello_dto world_cached))) =
     [''conversation-messages:tenant-a:c-1:1:10:timestamp:desc'']
   \<and> deletedKeys (calls (snd (updateMessage env_healthy ''m-1'' edit_dto world_cached))) =
     [''message:tenant-a:m-1'', ''conversation-messages:tenant-a:c-1:1:10:timestamp:desc'']
   \<and> deletedKeys (calls (snd (deleteMessage env_healthy ''m-1'' world_cached))) =
     [''message:tenant-a:m-1'', ''conversation-messages:tenant-a:c-1:1:10:timestamp:desc'']
   \<and> cache (snd (createMessage env_healthy hello_dto world_cached))
       ''conversation-messages:tenant-a:c-1:2:10:timestamp:desc'' = Some page_of_hello
   \<and> cache (snd (updateMessage env_healthy ''m-1'' edit_dto world_cached))
       ''conversation-messages:tenant-a:c-1:2:10:timestamp:desc'' = Some page_of_hello
   \<and> cache (snd (deleteMessage env_healthy ''m-1'' world_cached))
       ''conversation-messages:tenant-a:c-1:1:20:timestamp:desc'' = Some page_of_hello
   \<and> cache (snd (deleteMessage env_healthy ''m-1'' world_cached))
       ''conversation-messages:tenant-a:c-1:1:10:timestamp:desc'' = None"
proof -
  have t: "tenant_ctx env_healthy = Some ''tenant-a''"
    by (simp add: env_healthy_def)
  have f: "find (\<lambda>x. msgId x = ''m-1'' \<and> tenantId x = ''tenant-a'') (db world_cached) =
             Some stored_hello"
    "conversationId stored_hello = ''c-1''" "uuidv4 env_healthy = ''m-2''"
    "dto_conversationId hello_dto = ''c-1''"
    by (simp_all add: world_cached_def stored_hello_def env_healthy_def hello_dto_def)
  have before:
    "cache world_cached ''conversation-messages:tenant-a:c-1:2:10:timestamp:desc'' =
       Some page_of_hello"
    "cache world_cached ''conversation-messages:tenant-a:c-1:1:20:timestamp:desc'' =
       Some page_of_hello"
    by (simp_all add: world_cached_def)
  have hc: "(snd (createMessage env_healthy hello_dto world_cached) =
              snd (createMessage env_healthy hello_dto world_cached)
            \<and> ''m-2'' = uuidv4 env_healthy \<and> ''c-1'' = dto_conversationId hello_dto)
         \<or> (find (\<lambda>x. msgId x = ''m-2'' \<and> tenantId x = ''tenant-a'') (db world_cached) =
               Some stored_hello \<and> ''c-1'' = conversationId stored_hello
            \<and> (snd (createMessage env_healthy hello_dto world_cached) =
                  snd (updateMessage env_healthy ''m-2'' edit_dto world_cached)
               \<or> snd (createMessage env_healthy hello_dto world_cached) =
                  snd (deleteMessage env_healthy ''m-2'' world_cached)))"
    using f by simp
  have hu: "(snd (updateMessage env_healthy ''m-1'' edit_dto world_cached) =
              snd (createMessage env_healthy hello_dto world_cached)
            \<and> ''m-1'' = uuidv4 env_healthy \<and> ''c-1'' = dto_conversationId hello_dto)
         \<or> (find (\<lambda>x. msgId x = ''m-1'' \<and> tenantId x = ''tenant-a'') (db world_cached) =
               Some stored_hello \<and> ''c-1'' = conversationId stored_hello
            \<and> (snd (updateMessage env_healthy ''m-1'' edit_dto world_cached) =
                  snd (updateMessage env_healthy ''m-1'' edit_dto world_cached)
               \<or> snd (updateMessage env_healthy ''m-1'' edit_dto world_cached) =
                  snd (deleteMessage env_healthy ''m-1'' world_cached)))"
    using f by simp
  have hd: "(snd (deleteMessage env_healthy ''m-1'' world_cached) =
              snd (createMessage env_healthy hello_dto world_cached)
            \<and> ''m-1'' = uuidv4 env_healthy \<and> ''c-1'' = dto_conversationId hello_dto)
         \<or> (find (\<lambda>x. msgId x = ''m-1'' \<and> tenantId x = ''tenant-a'') (db world_cached) =
               Some stored_hello \<and> ''c-1'' = conversationId stored_hello
            \<and> (snd (deleteMessage env_healthy ''m-1'' world_cached) =
                  snd (updateMessage env_healthy ''m-1'' edit_dto world_cached)
               \<or> snd (deleteMessage env_healthy ''m-1'' world_cached) =
                  snd (deleteMessage env_healthy ''m-1'' world_cached)))"
    using f by simp
  have far: "(2::int, 10::int, sortFieldOrDefault None, sortDirectionOrDefault None) \<noteq>
               (1, 10, ''timestamp'', ''desc'')"
    "(1::int, 20::int, sortFieldOrDefault (Some ''timestamp''),
        sortDirectionOrDefault (Some Desc)) \<noteq> (1, 10, ''timestamp'', ''desc'')"
    by simp_all
  have c: "cache (snd (createMessage env_healthy hello_dto world_cached))
       ''conversation-messages:tenant-a:c-1:2:10:timestamp:desc'' = Some page_of_hello"
    using invalidation_is_targeted [OF t hc, THEN conjunct2, THEN conjunct2, rule_format,
            OF far(1)]
    by (simp add: second_page_key before)
  have u: "cache (snd (updateMessage env_healthy ''m-1'' edit_dto world_cached))
       ''conversation-messages:tenant-a:c-1:2:10:timestamp:desc'' = Some page_of_hello"
    using invalidation_is_targeted [OF t hu, THEN conjunct2, THEN conjunct2, rule_format,
            OF far(1)]
    by (simp add: second_page_key before)
  have d: "cache (snd (deleteMessage env_healthy ''m-1'' world_cached))
       ''conversation-messages:tenant-a:c-1:1:20:timestamp:desc'' = Some page_of_hello"
    using invalidation_is_targeted [OF t hd, THEN conjunct2, THEN conjunct2, rule_format,
            OF far(2)]
    by (simp add: wide_page_key before)
  have runs:
    "deletedKeys (calls (snd (createMessage env_healthy hello_dto world_cached))) =
       [''conversation-messages:tenant-a:c-1:1:10:timestamp:desc'']"
    "deletedKeys (calls (snd (updateMessage env_healthy ''m-1'' edit_dto world_cached))) =
       [''message:tenant-a:m-1'', ''conversation-messages:tenant-a:c-1:1:10:timestamp:desc'']"
    "deletedKeys (calls (snd (deleteMessage env_healthy ''m-1'' world_cached))) =
       [''message:tenant-a:m-1'', ''conversation-messages:tenant-a:c-1:1:10:timestamp:desc'']"
    "cache (snd (deleteMessage env_healthy ''m-1'' world_cached))
       ''conversation-messages:tenant-a:c-1:1:10:timestamp:desc'' = None"
    by (simp_all add: createMessage_def updateMessage_def deleteMessage_def io_defs svc_defs
          env_healthy_def world_cached_def stored_hello_def hello_dto_def edit_dto_def
          create_def applyUpdate_def updateContent_def updateMetadata_def spread_def
          fromDatabase_id toDatabase_id hello_key new_key first_page_key)
  from runs c u d show ?thesis by blast
qed

end
